theory Spec2Isabelle
  imports Complex_Main
begin

section \<open>Data model\<close>

text \<open>
  The flowchart editor keeps its graph in a \<^verbatim>\<open>CanvasManager\<close> object
  (\<^verbatim>\<open>src/js/canvas.js\<close>); shapes are described by the \<^verbatim>\<open>NodeTypes\<close> table
  (\<^verbatim>\<open>src/unnamed/part_001\<close>), diagnostics come from \<^verbatim>\<open>ValidationEngine\<close>
  (\<^verbatim>\<open>src/js/validation.js\<close>) and persistence from \<^verbatim>\<open>StorageManager\<close>
  (\<^verbatim>\<open>src/js/storage.js\<close>).

  JavaScript numbers are modelled as exact reals, identifiers and texts as strings.
  A node object \<^verbatim>\<open>{id, nodeType, x, y, width, height, text}\<close> is a record; the
  fields \<^verbatim>\<open>id\<close>, \<^verbatim>\<open>x\<close>, \<^verbatim>\<open>y\<close> and \<^verbatim>\<open>text\<close> are written \<open>nid\<close>, \<open>nx\<close>,
  \<open>ny\<close> and \<open>ntext\<close>, the edge's \<^verbatim>\<open>id\<close> is \<open>eid\<close>.
\<close>

subsection \<open>Numbers that may be missing\<close>

text \<open>
  The width and the height of a node are copied from an entry of \<^verbatim>\<open>NodeTypes\<close>,
  and what is found under a name need not have them. Such a field holds a number, or
  \<^verbatim>\<open>NaN\<close>, or \<^verbatim>\<open>undefined\<close>. Arithmetic converts its operands first
  (\<open>ToNumber\<close>: \<^verbatim>\<open>undefined\<close> becomes \<^verbatim>\<open>NaN\<close>) and gives \<^verbatim>\<open>NaN\<close> as soon
  as one operand is \<^verbatim>\<open>NaN\<close>; a comparison with \<^verbatim>\<open>NaN\<close> is false;
  \<^verbatim>\<open>Math.max\<close> and \<^verbatim>\<open>Math.abs\<close> do as the arithmetic does. The operators
  \<open>+\<close>, \<open>-\<close>, \<open>*\<close>, \<open>/\<close>, \<open><\<close> and \<open>\<le>\<close> on such values are these operations.
\<close>

datatype jsnum = Number real | NaN | Undefined

fun ToNumber :: "jsnum \<Rightarrow> real option" where
  "ToNumber (Number r) = Some r"
| "ToNumber NaN = None"
| "ToNumber Undefined = None"

definition arith :: "(real \<Rightarrow> real \<Rightarrow> real) \<Rightarrow> jsnum \<Rightarrow> jsnum \<Rightarrow> jsnum" where
  "arith f a b =
     (case (ToNumber a, ToNumber b) of
        (Some u, Some v) \<Rightarrow> Number (f u v)
      | _ \<Rightarrow> NaN)"

definition compare :: "(real \<Rightarrow> real \<Rightarrow> bool) \<Rightarrow> jsnum \<Rightarrow> jsnum \<Rightarrow> bool" where
  "compare f a b =
     (case (ToNumber a, ToNumber b) of
        (Some u, Some v) \<Rightarrow> f u v
      | _ \<Rightarrow> False)"

instantiation jsnum :: "{zero, one, plus, minus, uminus, times, inverse, abs, ord}"
begin

definition zero_jsnum :: jsnum where
  "zero_jsnum = Number 0"

definition one_jsnum :: jsnum where
  "one_jsnum = Number 1"

definition plus_jsnum :: "jsnum \<Rightarrow> jsnum \<Rightarrow> jsnum" where
  "plus_jsnum = arith (+)"

definition minus_jsnum :: "jsnum \<Rightarrow> jsnum \<Rightarrow> jsnum" where
  "minus_jsnum = arith (-)"

definition times_jsnum :: "jsnum \<Rightarrow> jsnum \<Rightarrow> jsnum" where
  "times_jsnum = arith (*)"

definition divide_jsnum :: "jsnum \<Rightarrow> jsnum \<Rightarrow> jsnum" where
  "divide_jsnum = arith (/)"

definition inverse_jsnum :: "jsnum \<Rightarrow> jsnum" where
  "inverse_jsnum = arith (/) (Number 1)"

definition uminus_jsnum :: "jsnum \<Rightarrow> jsnum" where
  "uminus_jsnum a = (case ToNumber a of Some u \<Rightarrow> Number (- u) | None \<Rightarrow> NaN)"

definition abs_jsnum :: "jsnum \<Rightarrow> jsnum" where
  "abs_jsnum a = (case ToNumber a of Some u \<Rightarrow> Number \<bar>u\<bar> | None \<Rightarrow> NaN)"

definition less_jsnum :: "jsnum \<Rightarrow> jsnum \<Rightarrow> bool" where
  "less_jsnum = compare (<)"

definition less_eq_jsnum :: "jsnum \<Rightarrow> jsnum \<Rightarrow> bool" where
  "less_eq_jsnum = compare (\<le>)"

instance ..

end

instance jsnum :: semigroup_add
proof
  fix a b c :: jsnum
  show "a + b + c = a + (b + c)"
    by (cases a; cases b; cases c) (simp_all add: plus_jsnum_def arith_def)
qed

instance jsnum :: numeral ..

instance jsnum :: power ..

definition Math_max :: "jsnum \<Rightarrow> jsnum \<Rightarrow> jsnum" where
  "Math_max = arith max"

subsection \<open>Nodes, edges and the canvas\<close>

record node =
  nid :: string
  nodeType :: string
  nx :: real
  ny :: real
  width :: jsnum
  height :: jsnum
  ntext :: string

record edge =
  eid :: string
  sourceId :: string
  targetId :: string
  label :: string

datatype corner = NW | NE | SE | SW

text \<open>
  Items handed around by the pointer handlers: \<^verbatim>\<open>{type: 'node', ...node}\<close>,
  \<^verbatim>\<open>{type: 'edge', ...edge}\<close> (both copies of the object's fields) and
  \<^verbatim>\<open>{type: 'resize-handle', nodeId, position}\<close>.
\<close>

datatype item = NodeItem node | EdgeItem edge | ResizeHandle string corner

datatype mode = SelectMode | ConnectMode | DeleteMode

record canvas =
  nodes :: "node list"
  edges :: "edge list"
  selectedItem :: "item option"
  mode :: mode
  scale :: real
  offsetX :: real
  offsetY :: real
  isDragging :: bool
  isPanning :: bool
  isResizing :: bool
  resizeDirection :: "corner option"
  startX :: real
  startY :: real
  lastMouseX :: real
  lastMouseY :: real
  connectionStartNode :: "string option"
  nodeCounter :: nat
  edgeCounter :: nat

text \<open>The state set up by the constructor of \<^verbatim>\<open>CanvasManager\<close>.\<close>

definition new_canvas :: canvas where
  "new_canvas =
     \<lparr>nodes = [], edges = [], selectedItem = None, mode = SelectMode,
      scale = 1, offsetX = 0, offsetY = 0,
      isDragging = False, isPanning = False, isResizing = False,
      resizeDirection = None, startX = 0, startY = 0,
      lastMouseX = 0, lastMouseY = 0, connectionStartNode = None,
      nodeCounter = 0, edgeCounter = 0\<rparr>"

subsection \<open>Template strings\<close>

text \<open>Decimal rendering of a counter, as a template literal does it.\<close>

definition digit :: "nat \<Rightarrow> char" where
  "digit d =
     (if d = 0 then CHR ''0'' else if d = 1 then CHR ''1'' else if d = 2 then CHR ''2''
      else if d = 3 then CHR ''3'' else if d = 4 then CHR ''4'' else if d = 5 then CHR ''5''
      else if d = 6 then CHR ''6'' else if d = 7 then CHR ''7'' else if d = 8 then CHR ''8''
      else CHR ''9'')"

fun show_nat :: "nat \<Rightarrow> string" where
  "show_nat n = (if n < 10 then [digit n] else show_nat (n div 10) @ [digit (n mod 10)])"

declare show_nat.simps [simp del]

text \<open>\<^verbatim>\<open>s.charAt(0).toUpperCase() + s.slice(1)\<close> on ASCII text.\<close>

definition toUpperCase :: "char \<Rightarrow> char" where
  "toUpperCase ch =
     (if 97 \<le> (of_char ch :: nat) \<and> (of_char ch :: nat) \<le> 122
      then char_of ((of_char ch :: nat) - 32) else ch)"

definition capitalize :: "string \<Rightarrow> string" where
  "capitalize s = (case s of [] \<Rightarrow> [] | ch # rest \<Rightarrow> toUpperCase ch # rest)"

section \<open>The shape registry\<close>

text \<open>
  \<^verbatim>\<open>NodeTypes\<close> is an object literal with one entry per node type. The drawing
  colour is not modelled; the geometry functions of an entry are selected by its
  \<open>shape\<close>.

  \<^verbatim>\<open>NodeTypes[name]\<close> is a property lookup, and an object literal inherits the
  properties of \<^verbatim>\<open>Object.prototype\<close>. Under each of their names the lookup finds a
  function (under \<^verbatim>\<open>__proto__\<close> the prototype object itself): something that counts
  as true and has neither \<^verbatim>\<open>defaultWidth\<close> nor \<^verbatim>\<open>defaultHeight\<close> nor any of the
  geometry functions. Under every other name it finds nothing.
\<close>

datatype shape = Ellipse | Rectangle | Rhombus | Parallelogram

record nodeTypeDef =
  defaultWidth :: jsnum
  defaultHeight :: jsnum
  shape :: "shape option"

definition inherited_names :: "string list" where
  "inherited_names =
     [''constructor'', ''hasOwnProperty'', ''isPrototypeOf'', ''propertyIsEnumerable'',
      ''toLocaleString'', ''toString'', ''valueOf'', ''__defineGetter__'',
      ''__defineSetter__'', ''__lookupGetter__'', ''__lookupSetter__'', ''__proto__'']"

definition NodeTypes :: "string \<Rightarrow> nodeTypeDef option" where
  "NodeTypes t =
     (if t = ''start'' then
        Some \<lparr>defaultWidth = 100, defaultHeight = 50, shape = Some Ellipse\<rparr>
      else if t = ''process'' then
        Some \<lparr>defaultWidth = 120, defaultHeight = 60, shape = Some Rectangle\<rparr>
      else if t = ''decision'' then
        Some \<lparr>defaultWidth = 120, defaultHeight = 80, shape = Some Rhombus\<rparr>
      else if t = ''input'' then
        Some \<lparr>defaultWidth = 120, defaultHeight = 60, shape = Some Parallelogram\<rparr>
      else if t = ''end'' then
        Some \<lparr>defaultWidth = 100, defaultHeight = 50, shape = Some Ellipse\<rparr>
      else if t \<in> set inherited_names then
        Some \<lparr>defaultWidth = Undefined, defaultHeight = Undefined, shape = None\<rparr>
      else None)"

section \<open>Graph store operations\<close>

text \<open>
  The \<^verbatim>\<open>onFlowchartChange\<close> and \<^verbatim>\<open>onSelectionChange\<close> callbacks only notify the
  user interface and the validator; they do not touch the canvas state and are left out.
  A function that returns \<^verbatim>\<open>null\<close> returns \<open>None\<close>. \<^verbatim>\<open>addNode\<close> goes on
  whenever the lookup of its node type finds something that counts as true, and copies
  the width and the height from what it found.
\<close>

definition addNode :: "string \<Rightarrow> real \<Rightarrow> real \<Rightarrow> canvas \<Rightarrow> node option \<times> canvas" where
  "addNode t px py c =
     (case NodeTypes t of
        None \<Rightarrow> (None, c)
      | Some d \<Rightarrow>
          (let k = Suc (nodeCounter c);
               n = \<lparr>nid = ''node_'' @ show_nat k, nodeType = t, nx = px, ny = py,
                    width = defaultWidth d, height = defaultHeight d,
                    ntext = capitalize t\<rparr>
           in (Some n, c\<lparr>nodeCounter := k, nodes := nodes c @ [n]\<rparr>)))"

definition addEdge :: "string \<Rightarrow> string \<Rightarrow> canvas \<Rightarrow> edge option \<times> canvas" where
  "addEdge a b c =
     (case find (\<lambda>e. sourceId e = a \<and> targetId e = b) (edges c) of
        Some existingEdge \<Rightarrow> (None, c)
      | None \<Rightarrow>
          (let k = Suc (edgeCounter c);
               e = \<lparr>eid = ''edge_'' @ show_nat k, sourceId = a, targetId = b, label = ''''\<rparr>
           in (Some e, c\<lparr>edgeCounter := k, edges := edges c @ [e]\<rparr>)))"

text \<open>
  \<^verbatim>\<open>find\<close> returns the first matching object and the caller mutates it in place:
  the first matching element of the list is replaced.
\<close>

fun update_first :: "('a \<Rightarrow> bool) \<Rightarrow> ('a \<Rightarrow> 'a) \<Rightarrow> 'a list \<Rightarrow> 'a list" where
  "update_first P f [] = []"
| "update_first P f (v # vs) = (if P v then f v # vs else v # update_first P f vs)"

definition updateNodeText :: "string \<Rightarrow> string \<Rightarrow> canvas \<Rightarrow> canvas" where
  "updateNodeText nodeId t c =
     c\<lparr>nodes := update_first (\<lambda>n. nid n = nodeId) (\<lambda>n. n\<lparr>ntext := t\<rparr>) (nodes c)\<rparr>"

definition updateEdgeLabel :: "string \<Rightarrow> string \<Rightarrow> canvas \<Rightarrow> canvas" where
  "updateEdgeLabel edgeId l c =
     c\<lparr>edges := update_first (\<lambda>e. eid e = edgeId) (\<lambda>e. e\<lparr>label := l\<rparr>) (edges c)\<rparr>"

definition selectItem :: "item option \<Rightarrow> canvas \<Rightarrow> canvas" where
  "selectItem it c = c\<lparr>selectedItem := it\<rparr>"

text \<open>
  \<^verbatim>\<open>deleteItem(item)\<close>: nothing happens for \<^verbatim>\<open>null\<close>; a node is removed together
  with every edge that names it; an edge is removed by id; any other item only clears
  the selection.
\<close>

fun deleteItem :: "item option \<Rightarrow> canvas \<Rightarrow> canvas" where
  "deleteItem None c = c"
| "deleteItem (Some (NodeItem n)) c =
     selectItem None
       (c\<lparr>nodes := filter (\<lambda>m. nid m \<noteq> nid n) (nodes c),
          edges := filter (\<lambda>e. sourceId e \<noteq> nid n \<and> targetId e \<noteq> nid n) (edges c)\<rparr>)"
| "deleteItem (Some (EdgeItem d)) c =
     selectItem None (c\<lparr>edges := filter (\<lambda>e. eid e \<noteq> eid d) (edges c)\<rparr>)"
| "deleteItem (Some (ResizeHandle nodeId pos)) c = selectItem None c"

text \<open>An edge dangles when one of its ends names no node of the canvas.\<close>

definition resolves :: "canvas \<Rightarrow> edge \<Rightarrow> bool" where
  "resolves c e \<longleftrightarrow>
     find (\<lambda>n. nid n = sourceId e) (nodes c) \<noteq> None \<and>
     find (\<lambda>n. nid n = targetId e) (nodes c) \<noteq> None"

definition no_dangling :: "canvas \<Rightarrow> bool" where
  "no_dangling c \<longleftrightarrow> list_all (resolves c) (edges c)"

definition edges_between :: "string \<Rightarrow> string \<Rightarrow> canvas \<Rightarrow> edge list" where
  "edges_between a b c = filter (\<lambda>e. sourceId e = a \<and> targetId e = b) (edges c)"

section \<open>Pointer interaction\<close>

text \<open>
  A mouse event carries the client coordinates of the pointer; a wheel event its
  \<^verbatim>\<open>deltaY\<close> as well. The position of the canvas element in the viewport
  (\<^verbatim>\<open>getBoundingClientRect()\<close>, its \<^verbatim>\<open>left\<close> and \<^verbatim>\<open>top\<close>) is a parameter
  \<open>rect\<close> of the handlers.
\<close>

record mouse_event =
  clientX :: real
  clientY :: real

record wheel_event = mouse_event +
  deltaY :: real

definition viewportToCanvas :: "real \<times> real \<Rightarrow> canvas \<Rightarrow> real \<Rightarrow> real \<Rightarrow> real \<times> real" where
  "viewportToCanvas rect c cx cy =
     ((cx - fst rect) / scale c - offsetX c, (cy - snd rect) / scale c - offsetY c)"

text \<open>
  The \<^verbatim>\<open>switch (this.resizeDirection)\<close> of the resizing branch of
  \<^verbatim>\<open>handleMouseMove\<close>, applied to the node found. There is no default case: with no
  direction set the node is left as it is.
\<close>

fun resizeNode :: "corner option \<Rightarrow> real \<Rightarrow> real \<Rightarrow> node \<Rightarrow> node" where
  "resizeNode (Some NW) dx dy n =
     n\<lparr>width := Math_max 50 (width n - Number dx),
       height := Math_max 30 (height n - Number dy),
       nx := nx n + dx / 2, ny := ny n + dy / 2\<rparr>"
| "resizeNode (Some NE) dx dy n =
     n\<lparr>width := Math_max 50 (width n + Number dx),
       height := Math_max 30 (height n - Number dy),
       nx := nx n + dx / 2, ny := ny n + dy / 2\<rparr>"
| "resizeNode (Some SE) dx dy n =
     n\<lparr>width := Math_max 50 (width n + Number dx),
       height := Math_max 30 (height n + Number dy),
       nx := nx n + dx / 2, ny := ny n + dy / 2\<rparr>"
| "resizeNode (Some SW) dx dy n =
     n\<lparr>width := Math_max 50 (width n - Number dx),
       height := Math_max 30 (height n + Number dy),
       nx := nx n + dx / 2, ny := ny n + dy / 2\<rparr>"
| "resizeNode None dx dy n = n"

text \<open>The dragging branch: \<^verbatim>\<open>node.x += dx; node.y += dy\<close>.\<close>

definition moveNode :: "real \<Rightarrow> real \<Rightarrow> node \<Rightarrow> node" where
  "moveNode dx dy n = n\<lparr>nx := nx n + dx, ny := ny n + dy\<rparr>"

text \<open>
  \<^verbatim>\<open>handleMouseMove(e)\<close>. The selected item is a copy of the node's fields, kept in
  step with the node by the dragging and resizing branches. The last branch only computes
  the hovered item and the cursor style, which are not part of the modelled state.
\<close>

definition handleMouseMove :: "real \<times> real \<Rightarrow> mouse_event \<Rightarrow> canvas \<Rightarrow> canvas" where
  "handleMouseMove rect e c0 =
     (let c = c0\<lparr>lastMouseX := clientX e, lastMouseY := clientY e\<rparr>;
          (px, py) = viewportToCanvas rect c (clientX e) (clientY e)
      in case selectedItem c of
           Some (NodeItem sel) \<Rightarrow>
             if isDragging c then
               (case find (\<lambda>n. nid n = nid sel) (nodes c) of
                  None \<Rightarrow> c
                | Some found \<Rightarrow>
                    (let dx = px - startX c; dy = py - startY c;
                         moved = moveNode dx dy found
                     in c\<lparr>nodes := update_first (\<lambda>n. nid n = nid sel) (moveNode dx dy) (nodes c),
                          selectedItem := Some (NodeItem (sel\<lparr>nx := nx moved, ny := ny moved\<rparr>)),
                          startX := px, startY := py\<rparr>))
             else if isResizing c then
               (case find (\<lambda>n. nid n = nid sel) (nodes c) of
                  None \<Rightarrow> c
                | Some found \<Rightarrow>
                    (let dx = px - startX c; dy = py - startY c;
                         resized = resizeNode (resizeDirection c) dx dy found
                     in c\<lparr>nodes := update_first (\<lambda>n. nid n = nid sel)
                                     (resizeNode (resizeDirection c) dx dy) (nodes c),
                          selectedItem := Some (NodeItem (sel\<lparr>nx := nx resized, ny := ny resized,
                                            width := width resized, height := height resized\<rparr>)),
                          startX := px, startY := py\<rparr>))
             else if isPanning c then
               (let dx = px - startX c; dy = py - startY c
                in c\<lparr>offsetX := offsetX c + dx, offsetY := offsetY c + dy,
                     startX := px - dx, startY := py - dy\<rparr>)
             else c
         | _ \<Rightarrow>
             if isPanning c then
               (let dx = px - startX c; dy = py - startY c
                in c\<lparr>offsetX := offsetX c + dx, offsetY := offsetY c + dy,
                     startX := px - dx, startY := py - dy\<rparr>)
             else c)"

text \<open>\<^verbatim>\<open>handleWheel(e)\<close>: the zoom step and the offset adjustment.\<close>

definition handleWheel :: "real \<times> real \<Rightarrow> wheel_event \<Rightarrow> canvas \<Rightarrow> canvas" where
  "handleWheel rect e c =
     (let (px, py) = viewportToCanvas rect c (clientX e) (clientY e);
          delta = (if deltaY e < 0 then 11 / 10 else 9 / 10)
      in c\<lparr>scale := scale c * delta,
           offsetX := px - (px - offsetX c) * delta,
           offsetY := py - (py - offsetY c) * delta\<rparr>)"

text \<open>The corners of a node's bounding box, by compass direction (y grows downwards).\<close>

fun corner_of :: "corner \<Rightarrow> node \<Rightarrow> jsnum \<times> jsnum" where
  "corner_of NW n = (Number (nx n) - width n / 2, Number (ny n) - height n / 2)"
| "corner_of NE n = (Number (nx n) + width n / 2, Number (ny n) - height n / 2)"
| "corner_of SE n = (Number (nx n) + width n / 2, Number (ny n) + height n / 2)"
| "corner_of SW n = (Number (nx n) - width n / 2, Number (ny n) + height n / 2)"

fun opposite :: "corner \<Rightarrow> corner" where
  "opposite NW = SE"
| "opposite NE = SW"
| "opposite SE = NW"
| "opposite SW = NE"

text \<open>Pointer gestures that the size invariant is checked against.\<close>

datatype gesture = AddNode string real real | MouseMove mouse_event

fun apply_gesture :: "real \<times> real \<Rightarrow> canvas \<Rightarrow> gesture \<Rightarrow> canvas" where
  "apply_gesture rect c (AddNode t px py) = snd (addNode t px py c)"
| "apply_gesture rect c (MouseMove e) = handleMouseMove rect e c"

definition run_gestures :: "real \<times> real \<Rightarrow> gesture list \<Rightarrow> canvas \<Rightarrow> canvas" where
  "run_gestures rect gs c = foldl (apply_gesture rect) c gs"

definition min_size_ok :: "canvas \<Rightarrow> bool" where
  "min_size_ok c \<longleftrightarrow> list_all (\<lambda>n. 50 \<le> width n \<and> 30 \<le> height n) (nodes c)"

text \<open>A gesture that does not add a node under a name that \<^verbatim>\<open>NodeTypes\<close> merely
  inherits.\<close>

fun own_type_gesture :: "gesture \<Rightarrow> bool" where
  "own_type_gesture (AddNode t px py) = (t \<notin> set inherited_names)"
| "own_type_gesture (MouseMove e) = True"

section \<open>Shape geometry\<close>

text \<open>
  \<^verbatim>\<open>Math.atan2(dy, dx)\<close> on reals: the angle of the vector \<open>(dx, dy)\<close> in
  \<open>(-\<pi>, \<pi>]\<close>, and \<open>0\<close> for the zero vector. \<^verbatim>\<open>Math.cos\<close> and \<^verbatim>\<open>Math.sin\<close> are
  the real functions. So is \<^verbatim>\<open>Math.tan\<close>, except at the two angles where the real
  tangent has a pole: there JavaScript computes with the nearest double of the angle and
  returns \<open>16331239353195370\<close> for \<^verbatim>\<open>Math.PI / 2\<close> and the negative of it for
  \<^verbatim>\<open>-Math.PI / 2\<close>.
\<close>

definition Math_tan :: "real \<Rightarrow> real" where
  "Math_tan a =
     (if a = pi / 2 then 16331239353195370
      else if a = - (pi / 2) then - 16331239353195370
      else tan a)"

definition atan2 :: "real \<Rightarrow> real \<Rightarrow> real" where
  "atan2 dy dx =
     (if 0 < dx then arctan (dy / dx)
      else if dx < 0 then (if 0 \<le> dy then arctan (dy / dx) + pi else arctan (dy / dx) - pi)
      else if 0 < dy then pi / 2
      else if dy < 0 then - (pi / 2)
      else 0)"

text \<open>
  \<^verbatim>\<open>getConnectionPoint(node, targetNode)\<close> of each entry; of the target only its
  \<^verbatim>\<open>x\<close> and \<^verbatim>\<open>y\<close> are read. The centre of the node and the target are numbers;
  where they meet the width or the height of the node they are written \<open>Number\<close>, and the
  coordinates of the result are what the arithmetic on the width and the height gives.
\<close>

definition getConnectionPoint_ellipse :: "node \<Rightarrow> real \<times> real \<Rightarrow> jsnum \<times> jsnum" where
  "getConnectionPoint_ellipse n t =
     (let angle = atan2 (snd t - ny n) (fst t - nx n)
      in (Number (nx n) + (width n / 2) * Number (cos angle),
          Number (ny n) + (height n / 2) * Number (sin angle)))"

definition getConnectionPoint_process :: "node \<Rightarrow> real \<times> real \<Rightarrow> jsnum \<times> jsnum" where
  "getConnectionPoint_process n t =
     (let halfWidth = width n / 2; halfHeight = height n / 2;
          dx = fst t - nx n; dy = snd t - ny n;
          angle = atan2 dy dx
      in if Number \<bar>Math_tan angle\<bar> > height n / width n then
           (Number (nx n) + halfHeight * Number (Math_tan (pi / 2 - angle)) *
                              (if dy > 0 then 1 else - 1),
            if dy > 0 then Number (ny n) + halfHeight else Number (ny n) - halfHeight)
         else
           (if dx > 0 then Number (nx n) + halfWidth else Number (nx n) - halfWidth,
            Number (ny n) + halfWidth * Number (Math_tan angle) * (if dx > 0 then 1 else - 1)))"

definition getConnectionPoint_decision :: "node \<Rightarrow> real \<times> real \<Rightarrow> jsnum \<times> jsnum" where
  "getConnectionPoint_decision n t =
     (let halfWidth = width n / 2; halfHeight = height n / 2;
          dx = fst t - nx n; dy = snd t - ny n;
          angle = atan2 dy dx;
          tanAngle = \<bar>Math_tan angle\<bar>;
          tanRatio = halfHeight / halfWidth
      in if Number tanAngle < tanRatio then
           (if dx > 0 then Number (nx n) + halfWidth else Number (nx n) - halfWidth,
            Number (ny n) +
              (if dy > 0 then 1 else - 1) * halfHeight * (1 - Number \<bar>dx\<bar> / halfWidth))
         else
           (Number (nx n) +
              (if dx > 0 then 1 else - 1) * halfWidth * (1 - Number \<bar>dy\<bar> / halfHeight),
            if dy > 0 then Number (ny n) + halfHeight else Number (ny n) - halfHeight))"

definition getConnectionPoint_input :: "node \<Rightarrow> real \<times> real \<Rightarrow> jsnum \<times> jsnum" where
  "getConnectionPoint_input n t =
     (let halfWidth = width n / 2; halfHeight = height n / 2;
          offset = width n / 4;
          dx = fst t - nx n; dy = snd t - ny n;
          angle = atan2 dy dx
      in if \<bar>angle\<bar> > pi * 3 / 4 \<or> \<bar>angle\<bar> < pi / 4 then
           (let isRight = (\<bar>angle\<bar> < pi / 4);
                relY = Number (Math_tan angle) * halfWidth
            in (if isRight then Number (nx n) + halfWidth - offset
                else Number (nx n) - halfWidth - offset,
                Number (ny n) + (if isRight then relY else - relY)))
         else
           (let isBottom = (angle > 0);
                relX = halfHeight / Number (Math_tan (if isBottom then angle else angle + pi))
            in (Number (nx n) + relX,
                if isBottom then Number (ny n) + halfHeight else Number (ny n) - halfHeight)))"

fun getConnectionPoint :: "shape \<Rightarrow> node \<Rightarrow> real \<times> real \<Rightarrow> jsnum \<times> jsnum" where
  "getConnectionPoint Ellipse n t = getConnectionPoint_ellipse n t"
| "getConnectionPoint Rectangle n t = getConnectionPoint_process n t"
| "getConnectionPoint Rhombus n t = getConnectionPoint_decision n t"
| "getConnectionPoint Parallelogram n t = getConnectionPoint_input n t"

text \<open>\<^verbatim>\<open>containsPoint(node, x, y)\<close> of each entry.\<close>

fun containsPoint :: "shape \<Rightarrow> node \<Rightarrow> real \<Rightarrow> real \<Rightarrow> bool" where
  "containsPoint Ellipse n px py =
     (let dx = Number (px - nx n) / (width n / 2); dy = Number (py - ny n) / (height n / 2)
      in dx * dx + dy * dy \<le> 1)"
| "containsPoint Rectangle n px py =
     (Number \<bar>px - nx n\<bar> \<le> width n / 2 \<and> Number \<bar>py - ny n\<bar> \<le> height n / 2)"
| "containsPoint Rhombus n px py =
     (let dx = Number \<bar>px - nx n\<bar> / (width n / 2);
          dy = Number \<bar>py - ny n\<bar> / (height n / 2)
      in dx + dy \<le> 1)"
| "containsPoint Parallelogram n px py =
     (let halfWidth = width n / 2; halfHeight = height n / 2; offset = width n / 4
      in if Number \<bar>py - ny n\<bar> > halfHeight then False
         else (let relY = Number (py - ny n) / halfHeight;
                   leftX = Number (nx n) - halfWidth - offset * relY;
                   rightX = Number (nx n) + halfWidth - offset * relY
               in Number px \<ge> leftX \<and> Number px \<le> rightX))"

text \<open>
  The outline painted by \<^verbatim>\<open>draw(ctx, x, y, width, height)\<close>: an ellipse with radii
  \<open>width / 2\<close> and \<open>height / 2\<close>, or the closed path through the corner points that
  \<^verbatim>\<open>rect\<close>, \<^verbatim>\<open>moveTo\<close> and \<^verbatim>\<open>lineTo\<close> are given. A point with a coordinate that
  is no number is on no outline.
\<close>

fun path_points :: "shape \<Rightarrow> real \<Rightarrow> real \<Rightarrow> jsnum \<Rightarrow> jsnum \<Rightarrow> (jsnum \<times> jsnum) list" where
  "path_points Ellipse cx cy w h = []"
| "path_points Rectangle cx cy w h =
     [(Number cx - w / 2, Number cy - h / 2), (Number cx - w / 2 + w, Number cy - h / 2),
      (Number cx - w / 2 + w, Number cy - h / 2 + h), (Number cx - w / 2, Number cy - h / 2 + h)]"
| "path_points Rhombus cx cy w h =
     [(Number cx, Number cy - h / 2), (Number cx + w / 2, Number cy),
      (Number cx, Number cy + h / 2), (Number cx - w / 2, Number cy)]"
| "path_points Parallelogram cx cy w h =
     (let offset = w / 4
      in [(Number cx - w / 2 + offset, Number cy - h / 2),
          (Number cx + w / 2 + offset, Number cy - h / 2),
          (Number cx + w / 2 - offset, Number cy + h / 2),
          (Number cx - w / 2 - offset, Number cy + h / 2)])"

definition on_segment :: "jsnum \<times> jsnum \<Rightarrow> jsnum \<times> jsnum \<Rightarrow> jsnum \<times> jsnum \<Rightarrow> bool" where
  "on_segment a b p \<longleftrightarrow>
     (fst b - fst a) * (snd p - snd a) - (snd b - snd a) * (fst p - fst a) = 0 \<and>
     min (fst a) (fst b) \<le> fst p \<and> fst p \<le> max (fst a) (fst b) \<and>
     min (snd a) (snd b) \<le> snd p \<and> snd p \<le> max (snd a) (snd b)"

fun on_path :: "(jsnum \<times> jsnum) list \<Rightarrow> jsnum \<times> jsnum \<Rightarrow> bool" where
  "on_path (a # b # rest) p = (on_segment a b p \<or> on_path (b # rest) p)"
| "on_path _ p = False"

definition on_closed_path :: "(jsnum \<times> jsnum) list \<Rightarrow> jsnum \<times> jsnum \<Rightarrow> bool" where
  "on_closed_path ps p = (case ps of [] \<Rightarrow> False | a # rest \<Rightarrow> on_path (ps @ [a]) p)"

definition on_outline :: "shape \<Rightarrow> node \<Rightarrow> jsnum \<times> jsnum \<Rightarrow> bool" where
  "on_outline s n p =
     (case s of
        Ellipse \<Rightarrow>
          ((fst p - Number (nx n)) / (width n / 2))\<^sup>2 +
          ((snd p - Number (ny n)) / (height n / 2))\<^sup>2 = 1
      | _ \<Rightarrow> on_closed_path (path_points s (nx n) (ny n) (width n) (height n)) p)"

section \<open>The validation engine\<close>

text \<open>
  Diagnostics are strings, kept in the order \<^verbatim>\<open>addMessage\<close> pushed them. A call
  that ends by an uncaught \<^verbatim>\<open>TypeError\<close> keeps what it had pushed so far. The
  recursion of the cycle search is bounded by a depth budget; \<open>OutOfFuel\<close> is the
  model's answer where the budget does not reach.
\<close>

datatype 'a outcome = Returned 'a | TypeError 'a | OutOfFuel

definition quoted :: "string \<Rightarrow> string" where
  "quoted s = CHR 0x22 # s @ [CHR 0x22]"

text \<open>The separator of \<^verbatim>\<open>cycle.join\<close>, byte for byte as the source file has it.\<close>

definition arrow :: string where
  "arrow = [CHR '' '', CHR 0xC3, CHR 0xA2, CHR 0xE2, CHR 0x80, CHR 0xA0,
            CHR 0xE2, CHR 0x80, CHR 0x99, CHR '' '']"

fun join :: "string \<Rightarrow> string list \<Rightarrow> string" where
  "join sep [] = []"
| "join sep [s] = s"
| "join sep (s # t # rest) = s @ sep @ join sep (t # rest)"

definition checkUnconnectedNode :: "edge list \<Rightarrow> node \<Rightarrow> string list" where
  "checkUnconnectedNode es n =
     (let isEndNode = (nodeType n = ''end'');
          isStartNode = (nodeType n = ''start'');
          hasIncoming = (isStartNode \<or> list_ex (\<lambda>e. targetId e = nid n) es);
          hasOutgoing = (isEndNode \<or> list_ex (\<lambda>e. sourceId e = nid n) es)
      in if \<not> hasIncoming \<and> \<not> hasOutgoing then
           [''Node '' @ quoted (ntext n) @ '' is completely disconnected.'']
         else if \<not> hasIncoming then
           [''Node '' @ quoted (ntext n) @ '' has no incoming connections.'']
         else if \<not> hasOutgoing \<and> \<not> isEndNode then
           [''Node '' @ quoted (ntext n) @ '' has no outgoing connections.'']
         else [])"

definition checkUnconnectedNodes :: "node list \<Rightarrow> edge list \<Rightarrow> string list \<Rightarrow> string list" where
  "checkUnconnectedNodes ns es msgs = msgs @ concat (map (checkUnconnectedNode es) ns)"

text \<open>
  The adjacency object of \<^verbatim>\<open>checkForCycles\<close>: every node id is given an empty
  list, then every edge whose source is a key appends its target. In this object and in
  the two objects of the search the keys are ids of nodes and ends of edges; they are
  taken to be none of the names that an object inherits, as is the case for the ids that
  \<^verbatim>\<open>addNode\<close> makes.
\<close>

definition build_graph :: "node list \<Rightarrow> edge list \<Rightarrow> string \<Rightarrow> string list option" where
  "build_graph ns es =
     foldl (\<lambda>g e. case g (sourceId e) of
                     None \<Rightarrow> g
                   | Some ts \<Rightarrow> g(sourceId e \<mapsto> ts @ [targetId e]))
           (foldl (\<lambda>g n. g(nid n \<mapsto> [])) Map.empty ns) es"

text \<open>
  The objects \<^verbatim>\<open>visited\<close> and \<^verbatim>\<open>recStack\<close> are kept as the lists of the ids that
  are set to \<^verbatim>\<open>true\<close>; \<open>visited\<close> has every key once, so its length is
  \<^verbatim>\<open>Object.keys(visited).length\<close>.
\<close>

record dfs_state =
  visited :: "string list"
  recStack :: "string list"
  messages :: "string list"
  cycleFound :: bool

definition cycle_message :: "node list \<Rightarrow> string list \<Rightarrow> string \<Rightarrow> string" where
  "cycle_message ns path neighbor =
     (if neighbor \<in> set path then
        (let cycle = map (\<lambda>i. case find (\<lambda>n. nid n = i) ns of
                                Some n \<Rightarrow> ntext n
                              | None \<Rightarrow> i)
                         (dropWhile (\<lambda>i. i \<noteq> neighbor) path)
         in ''Cycle detected: '' @ join arrow (cycle @ take 1 cycle))
      else ''Cycle detected in the flowchart.'')"

fun dfs :: "nat \<Rightarrow> (string \<Rightarrow> string list option) \<Rightarrow> node list \<Rightarrow> string \<Rightarrow> string list
              \<Rightarrow> dfs_state \<Rightarrow> (bool \<times> dfs_state) outcome"
and dfs_neighbors :: "nat \<Rightarrow> (string \<Rightarrow> string list option) \<Rightarrow> node list \<Rightarrow> string
              \<Rightarrow> string list \<Rightarrow> string list \<Rightarrow> dfs_state \<Rightarrow> (bool \<times> dfs_state) outcome" where
  "dfs 0 graph ns nodeId path st = OutOfFuel"
| "dfs (Suc k) graph ns nodeId path st =
     (let st1 = st\<lparr>visited := List.insert nodeId (visited st),
                   recStack := List.insert nodeId (recStack st)\<rparr>;
          path1 = path @ [nodeId]
      in case graph nodeId of
           None \<Rightarrow> TypeError (False, st1)
         | Some neighbors \<Rightarrow> dfs_neighbors k graph ns nodeId path1 neighbors st1)"
| "dfs_neighbors k graph ns nodeId path [] st =
     Returned (False, st\<lparr>recStack := removeAll nodeId (recStack st)\<rparr>)"
| "dfs_neighbors k graph ns nodeId path (neighbor # rest) st =
     (if neighbor \<notin> set (visited st) then
        (case dfs k graph ns neighbor path st of
           Returned (found, st') \<Rightarrow>
             if found then Returned (True, st')
             else dfs_neighbors k graph ns nodeId path rest st'
         | TypeError r \<Rightarrow> TypeError r
         | OutOfFuel \<Rightarrow> OutOfFuel)
      else if neighbor \<in> set (recStack st) then
        Returned (True, st\<lparr>messages := messages st @ [cycle_message ns path neighbor],
                          cycleFound := True\<rparr>)
      else dfs_neighbors k graph ns nodeId path rest st)"

text \<open>The two \<^verbatim>\<open>for\<close> loops that start a search at every unvisited root.\<close>

fun dfs_roots :: "nat \<Rightarrow> (string \<Rightarrow> string list option) \<Rightarrow> node list \<Rightarrow> string list
              \<Rightarrow> dfs_state \<Rightarrow> dfs_state outcome" where
  "dfs_roots k graph ns [] st = Returned st"
| "dfs_roots k graph ns (r # rs) st =
     (if r \<notin> set (visited st) then
        (case dfs k graph ns r [] st of
           Returned (found, st') \<Rightarrow> dfs_roots k graph ns rs st'
         | TypeError (found, st') \<Rightarrow> TypeError st'
         | OutOfFuel \<Rightarrow> OutOfFuel)
      else dfs_roots k graph ns rs st)"

definition checkForCycles :: "node list \<Rightarrow> edge list \<Rightarrow> string list \<Rightarrow> (bool \<times> string list) outcome" where
  "checkForCycles ns es msgs =
     (let graph = build_graph ns es;
          fuel = Suc (length ns);
          st0 = \<lparr>visited = [], recStack = [], messages = msgs, cycleFound = False\<rparr>;
          localStartNodes = filter (\<lambda>n. nodeType n = ''start'') ns
      in case dfs_roots fuel graph ns (map nid localStartNodes) st0 of
           Returned st1 \<Rightarrow>
             if length localStartNodes = 0 \<or> length (visited st1) < length ns then
               (case dfs_roots fuel graph ns (map nid ns) st1 of
                  Returned st2 \<Rightarrow> Returned (cycleFound st2, messages st2)
                | TypeError st2 \<Rightarrow> TypeError (cycleFound st2, messages st2)
                | OutOfFuel \<Rightarrow> OutOfFuel)
             else Returned (cycleFound st1, messages st1)
         | TypeError st1 \<Rightarrow> TypeError (cycleFound st1, messages st1)
         | OutOfFuel \<Rightarrow> OutOfFuel)"

definition checkDecisionNode :: "edge list \<Rightarrow> node \<Rightarrow> string list" where
  "checkDecisionNode es n =
     (let outgoingCount = length (filter (\<lambda>e. sourceId e = nid n) es);
          outgoingEdges = filter (\<lambda>e. sourceId e = nid n) es;
          unlabeledEdges = filter (\<lambda>e. label e = []) outgoingEdges
      in (if outgoingCount < 2 then
            [''Decision node '' @ quoted (ntext n) @ '' should have at least 2 outgoing paths.'']
          else []) @
         (if outgoingCount \<ge> 2 \<and> length unlabeledEdges > 0 then
            [''Decision node '' @ quoted (ntext n) @ '' has '' @
               show_nat (length unlabeledEdges) @ '' unlabeled outgoing paths.'']
          else []))"

definition checkDecisionNodes :: "node list \<Rightarrow> edge list \<Rightarrow> string list \<Rightarrow> string list" where
  "checkDecisionNodes ns es msgs =
     msgs @ concat (map (checkDecisionNode es) (filter (\<lambda>n. nodeType n = ''decision'') ns))"

definition validateFlowchart :: "node list \<Rightarrow> edge list \<Rightarrow> string list outcome" where
  "validateFlowchart ns es =
     (if length ns = 0 then Returned []
      else
        (let startNodes = filter (\<lambda>n. nodeType n = ''start'') ns;
             m1 = (if length startNodes = 0 then
                     [''No start node found. Add a start node to your flowchart.'']
                   else if length startNodes > 1 then
                     [''Multiple start nodes found. A flowchart should have only one start node.'']
                   else []);
             endNodes = filter (\<lambda>n. nodeType n = ''end'') ns;
             m2 = m1 @ (if length endNodes = 0 then
                          [''No end node found. Add an end node to your flowchart.'']
                        else []);
             m3 = checkUnconnectedNodes ns es m2
         in case checkForCycles ns es m3 of
              Returned (found, m4) \<Rightarrow> Returned (checkDecisionNodes ns es m4)
            | TypeError (found, m4) \<Rightarrow> TypeError m4
            | OutOfFuel \<Rightarrow> OutOfFuel))"

section \<open>The storage manager\<close>

text \<open>
  \<^verbatim>\<open>localStorage\<close> maps keys to texts. A stored text either parses
  (\<^verbatim>\<open>JSON.parse\<close>) to an array of names or to a flowchart snapshot, or it is
  malformed and \<^verbatim>\<open>JSON.parse\<close> throws a \<^verbatim>\<open>SyntaxError\<close> with some message.
  The empty text is malformed too, and it is the one text that counts as false.
  Whether the browser accepts a write is its own decision: \<open>refuses\<close> gives the
  exception that \<^verbatim>\<open>setItem\<close> throws for a key and a text, if any.

  Exceptions are values: a \<^verbatim>\<open>DOMException\<close> with its name and message, an
  \<^verbatim>\<open>Error\<close>, a \<^verbatim>\<open>TypeError\<close> or a \<^verbatim>\<open>SyntaxError\<close> with its message. Each
  function of \<^verbatim>\<open>StorageManager\<close> is its \<^verbatim>\<open>try\<close> block, which returns or
  throws, followed by its \<^verbatim>\<open>catch\<close> block; the storage as it then is comes with the
  answer.
\<close>

datatype 'd json = Names "string list" | Chart 'd

datatype 'd stored = Json "'d json" | Malformed string | Empty

datatype exn =
    DOMException string string
  | JsError string
  | JsTypeError string
  | JsSyntaxError string

fun message :: "exn \<Rightarrow> string" where
  "message (DOMException nm m) = m"
| "message (JsError m) = m"
| "message (JsTypeError m) = m"
| "message (JsSyntaxError m) = m"

record 'd localStorage =
  items :: "string \<Rightarrow> 'd stored option"
  refuses :: "string \<Rightarrow> 'd stored \<Rightarrow> exn option"

definition FLOWCHART_LIST_KEY :: string where
  "FLOWCHART_LIST_KEY = ''flowcharter_flowchart_list''"

definition FLOWCHART_PREFIX :: string where
  "FLOWCHART_PREFIX = ''flowcharter_flowchart_''"

definition getItem :: "string \<Rightarrow> 'd localStorage \<Rightarrow> 'd stored option" where
  "getItem k st = items st k"

definition setItem :: "string \<Rightarrow> 'd stored \<Rightarrow> 'd localStorage \<Rightarrow> exn + 'd localStorage" where
  "setItem k v st =
     (case refuses st k v of
        Some ex \<Rightarrow> Inl ex
      | None \<Rightarrow> Inr (st\<lparr>items := (items st)(k \<mapsto> v)\<rparr>))"

definition removeItem :: "string \<Rightarrow> 'd localStorage \<Rightarrow> 'd localStorage" where
  "removeItem k st = st\<lparr>items := (items st)(k := None)\<rparr>"

text \<open>
  \<^verbatim>\<open>getFlowchartList()\<close>: the parsed text under the list key, the empty array when
  the key is absent (\<^verbatim>\<open>JSON.parse(null) || []\<close>) or when its text does not parse
  (the \<^verbatim>\<open>catch\<close> block).
\<close>

definition getFlowchartList :: "'d localStorage \<Rightarrow> 'd json" where
  "getFlowchartList st =
     (case getItem FLOWCHART_LIST_KEY st of
        None \<Rightarrow> Names []
      | Some (Json v) \<Rightarrow> v
      | Some (Malformed m) \<Rightarrow> Names []
      | Some Empty \<Rightarrow> Names [])"

definition updateFlowchartList :: "string list \<Rightarrow> 'd localStorage \<Rightarrow> exn + 'd localStorage" where
  "updateFlowchartList l st =
     (case setItem FLOWCHART_LIST_KEY (Json (Names l)) st of
        Inl error \<Rightarrow> Inl (JsError ''Failed to update flowchart list'')
      | Inr st' \<Rightarrow> Inr st')"

text \<open>
  \<^verbatim>\<open>saveFlowchart(name, data)\<close>. A list that is no array has no \<^verbatim>\<open>includes\<close>
  method, and calling it throws a \<^verbatim>\<open>TypeError\<close>.
\<close>

definition saveFlowchart_try :: "string \<Rightarrow> 'd \<Rightarrow> 'd localStorage \<Rightarrow> (exn + bool) \<times> 'd localStorage" where
  "saveFlowchart_try name data st =
     (case getFlowchartList st of
        Chart other \<Rightarrow> (Inl (JsTypeError ''list.includes is not a function''), st)
      | Names l \<Rightarrow>
          (case (if name \<notin> set l then updateFlowchartList (l @ [name]) st else Inr st) of
             Inl error \<Rightarrow> (Inl error, st)
           | Inr st1 \<Rightarrow>
               (case setItem (FLOWCHART_PREFIX @ name) (Json (Chart data)) st1 of
                  Inl error \<Rightarrow> (Inl error, st1)
                | Inr st2 \<Rightarrow> (Inr True, st2))))"

fun saveFlowchart_catch :: "exn \<Rightarrow> exn" where
  "saveFlowchart_catch (DOMException nm m) =
     (if nm = ''QuotaExceededError''
      then JsError ''Storage quota exceeded. Try deleting some flowcharts first.''
      else JsError ''Failed to save flowchart'')"
| "saveFlowchart_catch error = JsError ''Failed to save flowchart''"

definition saveFlowchart_storage :: "string \<Rightarrow> 'd \<Rightarrow> 'd localStorage \<Rightarrow> (exn + bool) \<times> 'd localStorage" where
  "saveFlowchart_storage name data st =
     (case saveFlowchart_try name data st of
        (Inl error, st') \<Rightarrow> (Inl (saveFlowchart_catch error), st')
      | (Inr r, st') \<Rightarrow> (Inr r, st'))"

text \<open>
  \<^verbatim>\<open>loadFlowchart(name)\<close>: \<^verbatim>\<open>!data\<close> holds when the key is absent and when its
  text is empty.
\<close>

definition loadFlowchart_try :: "string \<Rightarrow> 'd localStorage \<Rightarrow> exn + 'd json" where
  "loadFlowchart_try name st =
     (case getItem (FLOWCHART_PREFIX @ name) st of
        None \<Rightarrow> Inl (JsError (''Flowchart '' @ quoted name @ '' not found''))
      | Some Empty \<Rightarrow> Inl (JsError (''Flowchart '' @ quoted name @ '' not found''))
      | Some (Json v) \<Rightarrow> Inr v
      | Some (Malformed m) \<Rightarrow> Inl (JsSyntaxError m))"

definition loadFlowchart_storage :: "string \<Rightarrow> 'd localStorage \<Rightarrow> exn + 'd json" where
  "loadFlowchart_storage name st =
     (case loadFlowchart_try name st of
        Inl error \<Rightarrow> Inl (JsError (''Failed to load flowchart: '' @ message error))
      | Inr v \<Rightarrow> Inr v)"

text \<open>
  \<^verbatim>\<open>deleteFlowchart(name)\<close>: \<^verbatim>\<open>splice(index, 1)\<close> takes the first occurrence of
  the name out of the list. The \<^verbatim>\<open>Error\<close> for a name that is not in the list is
  thrown inside the \<^verbatim>\<open>try\<close> block.
\<close>

definition deleteFlowchart_try :: "string \<Rightarrow> 'd localStorage \<Rightarrow> (exn + bool) \<times> 'd localStorage" where
  "deleteFlowchart_try name st =
     (case getFlowchartList st of
        Chart other \<Rightarrow> (Inl (JsTypeError ''list.indexOf is not a function''), st)
      | Names l \<Rightarrow>
          if name \<in> set l then
            (case updateFlowchartList (remove1 name l) st of
               Inl error \<Rightarrow> (Inl error, st)
             | Inr st1 \<Rightarrow> (Inr True, removeItem (FLOWCHART_PREFIX @ name) st1))
          else (Inl (JsError (''Flowchart '' @ quoted name @ '' not found'')), st))"

definition deleteFlowchart :: "string \<Rightarrow> 'd localStorage \<Rightarrow> (exn + bool) \<times> 'd localStorage" where
  "deleteFlowchart name st =
     (case deleteFlowchart_try name st of
        (Inl error, st') \<Rightarrow> (Inl (JsError ''Failed to delete flowchart''), st')
      | (Inr r, st') \<Rightarrow> (Inr r, st'))"

text \<open>
  Two storages for the examples: one holds the list \<^verbatim>\<open>["a"]\<close> and accepts every
  write, the other holds the same and throws on every write.
\<close>

definition open_storage :: "'d localStorage" where
  "open_storage =
     \<lparr>items = Map.empty(FLOWCHART_LIST_KEY \<mapsto> Json (Names [''a''])), refuses = (\<lambda>k v. None)\<rparr>"

definition failing_storage :: "exn \<Rightarrow> 'd localStorage" where
  "failing_storage ex =
     \<lparr>items = Map.empty(FLOWCHART_LIST_KEY \<mapsto> Json (Names [''a''])),
      refuses = (\<lambda>k v. Some ex)\<rparr>"

section \<open>Objects and references\<close>

text \<open>
  Whether a snapshot shares objects with the live graph cannot be read off lists of
  values, so \<^verbatim>\<open>saveFlowchart\<close> and the operations that change the graph are also
  given over an object store. Nodes, edges and arrays are objects; a reference is the
  index of its object in the store, and a new object is put at the end. An array holds
  references. \<^verbatim>\<open>this.nodes\<close> and \<^verbatim>\<open>this.edges\<close> are references to arrays, and so
  are the \<^verbatim>\<open>nodes\<close> and \<^verbatim>\<open>edges\<close> fields of the object that
  \<^verbatim>\<open>saveFlowchart\<close> returns.
\<close>

datatype obj = NodeObj node | EdgeObj edge | ArrayObj "nat list"

definition deref :: "obj list \<Rightarrow> nat \<Rightarrow> obj option" where
  "deref h r = (if r < length h then Some (h ! r) else None)"

definition alloc :: "obj \<Rightarrow> obj list \<Rightarrow> nat \<times> obj list" where
  "alloc v h = (length h, h @ [v])"

definition elements :: "obj list \<Rightarrow> nat \<Rightarrow> nat list" where
  "elements h a = (case deref h a of Some (ArrayObj rs) \<Rightarrow> rs | _ \<Rightarrow> [])"

definition node_at :: "obj list \<Rightarrow> nat \<Rightarrow> node option" where
  "node_at h r = (case deref h r of Some (NodeObj n) \<Rightarrow> Some n | _ \<Rightarrow> None)"

definition edge_at :: "obj list \<Rightarrow> nat \<Rightarrow> edge option" where
  "edge_at h r = (case deref h r of Some (EdgeObj e) \<Rightarrow> Some e | _ \<Rightarrow> None)"

text \<open>What a reader of the array at \<open>a\<close> sees: its nodes, or its edges, in order.\<close>

definition read_nodes :: "obj list \<Rightarrow> nat \<Rightarrow> node list" where
  "read_nodes h a = List.map_filter (node_at h) (elements h a)"

definition read_edges :: "obj list \<Rightarrow> nat \<Rightarrow> edge list" where
  "read_edges h a = List.map_filter (edge_at h) (elements h a)"

record canvas_refs =
  nodesRef :: nat
  edgesRef :: nat
  nodeCounterRef :: nat
  edgeCounterRef :: nat

record snapshot =
  snap_nodes :: nat
  snap_edges :: nat
  snap_nodeCounter :: nat
  snap_edgeCounter :: nat

text \<open>
  \<^verbatim>\<open>saveFlowchart()\<close>: the spread \<^verbatim>\<open>[...this.nodes]\<close> makes a new array with the
  elements of the old one.
\<close>

definition saveFlowchart :: "canvas_refs \<Rightarrow> obj list \<Rightarrow> snapshot \<times> obj list" where
  "saveFlowchart c h =
     (let (a1, h1) = alloc (ArrayObj (elements h (nodesRef c))) h;
          (a2, h2) = alloc (ArrayObj (elements h1 (edgesRef c))) h1
      in (\<lparr>snap_nodes = a1, snap_edges = a2,
           snap_nodeCounter = nodeCounterRef c, snap_edgeCounter = edgeCounterRef c\<rparr>, h2))"

text \<open>
  \<^verbatim>\<open>this.nodes.find(node => node.id === nodeId)\<close> followed by an assignment to a
  field of the node found: the object is changed where it is.
\<close>

definition mutate_node :: "string \<Rightarrow> (node \<Rightarrow> node) \<Rightarrow> canvas_refs \<Rightarrow> obj list \<Rightarrow> obj list" where
  "mutate_node nodeId f c h =
     (case find (\<lambda>r. case node_at h r of Some n \<Rightarrow> nid n = nodeId | None \<Rightarrow> False)
                (elements h (nodesRef c)) of
        None \<Rightarrow> h
      | Some r \<Rightarrow> (case node_at h r of Some n \<Rightarrow> h[r := NodeObj (f n)] | None \<Rightarrow> h))"

definition mutate_edge :: "string \<Rightarrow> (edge \<Rightarrow> edge) \<Rightarrow> canvas_refs \<Rightarrow> obj list \<Rightarrow> obj list" where
  "mutate_edge edgeId f c h =
     (case find (\<lambda>r. case edge_at h r of Some e \<Rightarrow> eid e = edgeId | None \<Rightarrow> False)
                (elements h (edgesRef c)) of
        None \<Rightarrow> h
      | Some r \<Rightarrow> (case edge_at h r of Some e \<Rightarrow> h[r := EdgeObj (f e)] | None \<Rightarrow> h))"

definition updateNodeText_store :: "string \<Rightarrow> string \<Rightarrow> canvas_refs \<Rightarrow> obj list \<Rightarrow> obj list" where
  "updateNodeText_store nodeId t c h = mutate_node nodeId (\<lambda>n. n\<lparr>ntext := t\<rparr>) c h"

definition updateEdgeLabel_store :: "string \<Rightarrow> string \<Rightarrow> canvas_refs \<Rightarrow> obj list \<Rightarrow> obj list" where
  "updateEdgeLabel_store edgeId l c h = mutate_edge edgeId (\<lambda>e. e\<lparr>label := l\<rparr>) c h"

text \<open>The dragging branch of \<^verbatim>\<open>handleMouseMove\<close> on the node found.\<close>

definition dragNode_store :: "string \<Rightarrow> real \<Rightarrow> real \<Rightarrow> canvas_refs \<Rightarrow> obj list \<Rightarrow> obj list" where
  "dragNode_store nodeId dx dy c h = mutate_node nodeId (moveNode dx dy) c h"

text \<open>\<^verbatim>\<open>addNode\<close>: the new node is pushed onto the live array.\<close>

definition addNode_store :: "string \<Rightarrow> real \<Rightarrow> real \<Rightarrow> canvas_refs \<Rightarrow> obj list
                               \<Rightarrow> nat option \<times> canvas_refs \<times> obj list" where
  "addNode_store t px py c h =
     (case NodeTypes t of
        None \<Rightarrow> (None, c, h)
      | Some d \<Rightarrow>
          (let k = Suc (nodeCounterRef c);
               n = \<lparr>nid = ''node_'' @ show_nat k, nodeType = t, nx = px, ny = py,
                    width = defaultWidth d, height = defaultHeight d,
                    ntext = capitalize t\<rparr>;
               (r, h1) = alloc (NodeObj n) h;
               h2 = h1[nodesRef c := ArrayObj (elements h1 (nodesRef c) @ [r])]
           in (Some r, c\<lparr>nodeCounterRef := k\<rparr>, h2)))"

text \<open>A store with one process node in the live array, for the examples.\<close>

definition example_node :: node where
  "example_node =
     \<lparr>nid = ''node_1'', nodeType = ''process'', nx = 100, ny = 100,
      width = 120, height = 60, ntext = ''Process''\<rparr>"

definition example_store :: "obj list" where
  "example_store = [ArrayObj [2], ArrayObj [], NodeObj example_node]"

definition example_refs :: canvas_refs where
  "example_refs = \<lparr>nodesRef = 0, edgesRef = 1, nodeCounterRef = 1, edgeCounterRef = 0\<rparr>"

text \<open>A canvas in the middle of a resize gesture: the example node is selected and is
  being resized by its south-east handle, the pointer was last seen on that corner.\<close>

definition example_canvas :: canvas where
  "example_canvas =
     new_canvas\<lparr>nodes := [example_node], selectedItem := Some (NodeItem example_node),
                isResizing := True, resizeDirection := Some SE,
                startX := 160, startY := 130, nodeCounter := 1\<rparr>"

text \<open>A decision node and an input node of default size at the origin.\<close>

definition example_decision :: node where
  "example_decision =
     \<lparr>nid = ''node_2'', nodeType = ''decision'', nx = 0, ny = 0,
      width = 120, height = 80, ntext = ''Decision''\<rparr>"

definition example_input :: node where
  "example_input =
     \<lparr>nid = ''node_3'', nodeType = ''input'', nx = 0, ny = 0,
      width = 120, height = 60, ntext = ''Input''\<rparr>"

text \<open>Process nodes named by their text, and unlabelled edges between them, for the
  graphs of the cycle examples.\<close>

definition labelled :: "string \<Rightarrow> node" where
  "labelled i =
     \<lparr>nid = i, nodeType = ''process'', nx = 0, ny = 0, width = 120, height = 60, ntext = i\<rparr>"

definition link :: "string \<Rightarrow> string \<Rightarrow> edge" where
  "link a b = \<lparr>eid = a @ b, sourceId = a, targetId = b, label = ''''\<rparr>"

text \<open>The snapshot of the example store, and the store after it was taken.\<close>

definition example_snapshot :: snapshot where
  "example_snapshot = fst (saveFlowchart example_refs example_store)"

definition example_saved_store :: "obj list" where
  "example_saved_store = snd (saveFlowchart example_refs example_store)"

section \<open>Arithmetic on numbers that may be missing\<close>

text \<open>
  How the operations compute: on numbers as on the reals, and to \<^verbatim>\<open>NaN\<close> (or to
  false) as soon as an operand is no number.
\<close>

lemma Number_arith [simp]:
  "Number a + Number b = Number (a + b)"
  "Number a - Number b = Number (a - b)"
  "Number a * Number b = Number (a * b)"
  "Number a / Number b = Number (a / b)"
  "- Number a = Number (- a)"
  "\<bar>Number a\<bar> = Number \<bar>a\<bar>"
  "Math_max (Number a) (Number b) = Number (max a b)"
  "(Number a < Number b) = (a < b)"
  "(Number a \<le> Number b) = (a \<le> b)"
  by (simp_all add: plus_jsnum_def minus_jsnum_def times_jsnum_def divide_jsnum_def
        uminus_jsnum_def abs_jsnum_def Math_max_def less_jsnum_def less_eq_jsnum_def
        arith_def compare_def)

lemma Number_zero_one: "(0::jsnum) = Number 0" "(1::jsnum) = Number 1"
  by (simp_all add: zero_jsnum_def one_jsnum_def)

lemma Number_numeral: "(numeral k :: jsnum) = Number (numeral k)"
proof (induction k)
  case One
  show ?case by (simp only: numeral.simps one_jsnum_def)
next
  case (Bit0 k)
  have "(numeral (num.Bit0 k) :: jsnum) = numeral k + numeral k" by (rule numeral_Bit0)
  also have "\<dots> = Number (numeral k + numeral k)" by (simp only: Bit0 Number_arith)
  also have "(numeral k + numeral k :: real) = numeral (num.Bit0 k)"
    by (rule numeral_Bit0 [symmetric])
  finally show ?case .
next
  case (Bit1 k)
  have "(numeral (num.Bit1 k) :: jsnum) = numeral k + numeral k + 1" by (rule numeral_Bit1)
  also have "\<dots> = Number (numeral k + numeral k + 1)"
    by (simp only: Bit1 Number_arith one_jsnum_def)
  also have "(numeral k + numeral k + 1 :: real) = numeral (num.Bit1 k)"
    by (rule numeral_Bit1 [symmetric])
  finally show ?case .
qed

lemmas Number_numerals = Number_zero_one Number_numeral

lemma Number_power [simp]: "Number a ^ k = Number (a ^ k)"
  by (induction k) (simp_all add: Number_numerals)

lemma Number_min_max [simp]:
  "min (Number a) (Number b) = Number (min a b)"
  "max (Number a) (Number b) = Number (max a b)"
  by (simp_all add: min_def max_def)

lemma not_a_number [simp]:
  "NaN + b = NaN" "a + NaN = NaN" "Undefined + b = NaN" "a + Undefined = NaN"
  "NaN - b = NaN" "a - NaN = NaN" "Undefined - b = NaN" "a - Undefined = NaN"
  "NaN * b = NaN" "a * NaN = NaN" "Undefined * b = NaN" "a * Undefined = NaN"
  "NaN / b = NaN" "a / NaN = NaN" "Undefined / b = NaN" "a / Undefined = NaN"
  "Math_max NaN b = NaN" "Math_max a NaN = NaN"
  "Math_max Undefined b = NaN" "Math_max a Undefined = NaN"
  "\<not> NaN < b" "\<not> a < NaN" "\<not> Undefined < b" "\<not> a < Undefined"
  "\<not> NaN \<le> b" "\<not> a \<le> NaN" "\<not> Undefined \<le> b" "\<not> a \<le> Undefined"
  by (simp_all add: plus_jsnum_def minus_jsnum_def times_jsnum_def divide_jsnum_def
        Math_max_def less_jsnum_def less_eq_jsnum_def arith_def compare_def
      split: option.splits)

lemma Number_le_iff: "Number a \<le> v \<longleftrightarrow> (\<exists>r. v = Number r \<and> a \<le> r)"
  by (cases v) simp_all

lemma Number_less_iff: "Number a < v \<longleftrightarrow> (\<exists>r. v = Number r \<and> a < r)"
  by (cases v) simp_all

section \<open>Properties of the graph store\<close>

lemma find_None_iff_ex: "(find P xs = None) = (\<not> list_ex P xs)"
  by (induction xs) auto

lemma addEdge_existing:
  "list_ex (\<lambda>e. sourceId e = a \<and> targetId e = b) (edges c) \<Longrightarrow> addEdge a b c = (None, c)"
  by (auto simp: addEdge_def find_None_iff_ex split: option.splits)

lemma addEdge_creates:
  "\<not> list_ex (\<lambda>e. sourceId e = a \<and> targetId e = b) (edges c) \<Longrightarrow>
   edges (snd (addEdge a b c)) =
     edges c @ [\<lparr>eid = ''edge_'' @ show_nat (Suc (edgeCounter c)),
                 sourceId = a, targetId = b, label = ''''\<rparr>]"
  by (auto simp: addEdge_def find_None_iff_ex Let_def split: option.splits)

lemma addEdge_then_exists:
  "list_ex (\<lambda>e. sourceId e = a \<and> targetId e = b) (edges (snd (addEdge a b c)))"
  by (cases "list_ex (\<lambda>e. sourceId e = a \<and> targetId e = b) (edges c)")
     (simp_all add: addEdge_existing addEdge_creates)

lemma addEdge_twice: "addEdge a b (snd (addEdge a b c)) = (None, snd (addEdge a b c))"
  by (rule addEdge_existing) (rule addEdge_then_exists)

lemma edges_between_after:
  "length (edges_between a b c) \<le> 1 \<Longrightarrow> length (edges_between a b (snd (addEdge a b c))) = 1"
proof (cases "list_ex (\<lambda>e. sourceId e = a \<and> targetId e = b) (edges c)")
  case True
  assume le: "length (edges_between a b c) \<le> 1"
  from True have "edges_between a b c \<noteq> []"
    by (auto simp: edges_between_def filter_empty_conv list_ex_iff)
  with le have "length (edges_between a b c) = 1"
    by (cases "edges_between a b c") auto
  with True show ?thesis by (simp add: addEdge_existing)
next
  case False
  then have "edges_between a b c = []"
    by (auto simp: edges_between_def filter_empty_conv list_ex_iff)
  with False show ?thesis
    by (simp add: edges_between_def addEdge_creates)
qed

text \<open>
  Claim C5, as the code has it. \<^verbatim>\<open>addEdge(a, b)\<close> returns \<^verbatim>\<open>null\<close> and changes
  nothing when an edge from \<open>a\<close> to \<open>b\<close> exists; a second \<^verbatim>\<open>addEdge(a, b)\<close> right
  after the first always returns \<^verbatim>\<open>null\<close> and changes nothing; and when the
  collection held at most one edge from \<open>a\<close> to \<open>b\<close> before, it holds exactly one after
  the two calls. Nothing is said about \<open>a = b\<close>: \<^verbatim>\<open>addEdge\<close> does not compare its
  arguments.
\<close>

theorem addEdge_duplicate_rejected:
  "(list_ex (\<lambda>e. sourceId e = a \<and> targetId e = b) (edges c) \<longrightarrow> addEdge a b c = (None, c)) \<and>
   addEdge a b (snd (addEdge a b c)) = (None, snd (addEdge a b c)) \<and>
   (length (edges_between a b c) \<le> 1 \<longrightarrow>
      length (edges_between a b (snd (addEdge a b (snd (addEdge a b c))))) = 1)"
  by (simp add: addEdge_existing addEdge_twice edges_between_after)

theorem addEdge_duplicate_rejected_witness:
  "list_ex (\<lambda>e. sourceId e = ''a'' \<and> targetId e = ''b'')
     (edges (snd (addEdge ''a'' ''b'' new_canvas))) \<and>
   addEdge ''a'' ''b'' (snd (addEdge ''a'' ''b'' new_canvas)) =
     (None, snd (addEdge ''a'' ''b'' new_canvas)) \<and>
   length (edges_between ''a'' ''b'' new_canvas) \<le> 1 \<and>
   length (edges_between ''a'' ''b''
     (snd (addEdge ''a'' ''b'' (snd (addEdge ''a'' ''b'' new_canvas))))) = 1"
  using addEdge_duplicate_rejected [of "''a''" "''b''" "snd (addEdge ''a'' ''b'' new_canvas)"]
        addEdge_duplicate_rejected [of "''a''" "''b''" new_canvas]
  by (simp add: addEdge_def new_canvas_def Let_def edges_between_def)

text \<open>
  Claim C5 as stated says that \<^verbatim>\<open>addEdge(a, b)\<close> returns \<^verbatim>\<open>null\<close> when \<open>a\<close> equals
  \<open>b\<close>. On the empty canvas \<^verbatim>\<open>addEdge('a', 'a')\<close> returns an edge.
\<close>

theorem addEdge_self_loop_created: "fst (addEdge ''a'' ''a'' new_canvas) \<noteq> None"
  by (simp add: addEdge_def new_canvas_def Let_def)

lemma resolves_iff:
  "resolves c e \<longleftrightarrow> sourceId e \<in> nid ` set (nodes c) \<and> targetId e \<in> nid ` set (nodes c)"
  unfolding resolves_def find_None_iff image_iff by metis

lemma no_dangling_iff:
  "no_dangling c \<longleftrightarrow>
     (\<forall>e \<in> set (edges c). sourceId e \<in> nid ` set (nodes c) \<and> targetId e \<in> nid ` set (nodes c))"
  by (simp add: no_dangling_def list_all_iff resolves_iff)

lemma set_update_first_key:
  "(\<And>v. key (f v) = key v) \<Longrightarrow> key ` set (update_first P f xs) = key ` set xs"
  by (induction xs) auto

lemma list_all_update_first:
  "list_all Q xs \<Longrightarrow> (\<And>v. Q v \<Longrightarrow> Q (f v)) \<Longrightarrow> list_all Q (update_first P f xs)"
  by (induction xs) auto

lemma in_update_first:
  "v \<in> set (update_first P f xs) \<Longrightarrow> v \<in> set xs \<or> (\<exists>u \<in> set xs. v = f u)"
  by (induction xs) (auto split: if_splits)

lemma nid_moveNode [simp]: "nid (moveNode dx dy n) = nid n"
  by (simp add: moveNode_def)

lemma nid_resizeNode [simp]: "nid (resizeNode d dx dy n) = nid n"
  by (cases "(d, dx, dy, n)" rule: resizeNode.cases) auto

lemma edges_handleMouseMove [simp]: "edges (handleMouseMove rect e c) = edges c"
  by (simp add: handleMouseMove_def Let_def split: option.splits item.splits prod.splits)

lemma ids_handleMouseMove [simp]:
  "nid ` set (nodes (handleMouseMove rect e c)) = nid ` set (nodes c)"
  by (simp add: handleMouseMove_def Let_def set_update_first_key
           split: option.splits item.splits prod.splits)

lemma no_dangling_handleMouseMove:
  "no_dangling c \<Longrightarrow> no_dangling (handleMouseMove rect e c)"
  by (simp add: no_dangling_iff)

lemma no_dangling_deleteItem: "no_dangling c \<Longrightarrow> no_dangling (deleteItem it c)"
  by (cases "(it, c)" rule: deleteItem.cases) (auto simp: no_dangling_iff selectItem_def)

lemma deleteItem_cascades:
  "list_all (\<lambda>e. sourceId e \<noteq> nid n \<and> targetId e \<noteq> nid n)
     (edges (deleteItem (Some (NodeItem n)) c))"
  by (simp add: selectItem_def list_all_iff)

lemma no_dangling_addNode: "no_dangling c \<Longrightarrow> no_dangling (snd (addNode t px py c))"
  by (auto simp: no_dangling_iff addNode_def Let_def split: option.splits)

lemma no_dangling_addEdge:
  "no_dangling c \<Longrightarrow> a \<in> nid ` set (nodes c) \<Longrightarrow> b \<in> nid ` set (nodes c) \<Longrightarrow>
   no_dangling (snd (addEdge a b c))"
  by (auto simp: no_dangling_iff addEdge_def Let_def split: option.splits)

lemma no_dangling_updateNodeText: "no_dangling c \<Longrightarrow> no_dangling (updateNodeText i t c)"
  by (simp add: no_dangling_iff updateNodeText_def set_update_first_key)

lemma no_dangling_updateEdgeLabel: "no_dangling c \<Longrightarrow> no_dangling (updateEdgeLabel i l c)"
  by (auto simp: no_dangling_iff updateEdgeLabel_def dest!: in_update_first)

lemma addEdge_unresolved:
  assumes "\<not> list_ex (\<lambda>e. sourceId e = a \<and> targetId e = b) (edges c)"
    and "a \<notin> nid ` set (nodes c) \<or> b \<notin> nid ` set (nodes c)"
  shows "\<not> no_dangling (snd (addEdge a b c))"
proof -
  have "nodes (snd (addEdge a b c)) = nodes c"
    by (simp add: addEdge_def Let_def split: option.splits)
  with assms show ?thesis
    by (auto simp: no_dangling_iff addEdge_creates)
qed

text \<open>
  Claim C6, as the code has it. Deleting a node leaves no edge whose source or target is
  that node's id. From a canvas in which every edge resolves to nodes, \<^verbatim>\<open>deleteItem\<close>,
  \<^verbatim>\<open>addNode\<close>, \<^verbatim>\<open>updateNodeText\<close>, \<^verbatim>\<open>updateEdgeLabel\<close> and \<^verbatim>\<open>handleMouseMove\<close>
  (dragging, resizing, panning) lead to such a canvas again, and so does
  \<^verbatim>\<open>addEdge(a, b)\<close> when \<open>a\<close> and \<open>b\<close> are ids of nodes of the canvas.
  \<^verbatim>\<open>addEdge\<close> itself does not look its arguments up: when it stores an edge and
  one of \<open>a\<close> and \<open>b\<close> is not the id of a node, the canvas has a dangling edge.
\<close>

theorem no_dangling_preserved:
  "list_all (\<lambda>e. sourceId e \<noteq> nid n \<and> targetId e \<noteq> nid n)
     (edges (deleteItem (Some (NodeItem n)) c)) \<and>
   (no_dangling c \<longrightarrow>
      no_dangling (deleteItem it c) \<and>
      no_dangling (snd (addNode t px py c)) \<and>
      no_dangling (updateNodeText i tx c) \<and>
      no_dangling (updateEdgeLabel i tx c) \<and>
      no_dangling (handleMouseMove rect ev c) \<and>
      (a \<in> nid ` set (nodes c) \<and> b \<in> nid ` set (nodes c) \<longrightarrow> no_dangling (snd (addEdge a b c)))) \<and>
   (\<not> list_ex (\<lambda>e. sourceId e = a \<and> targetId e = b) (edges c) \<and>
    (a \<notin> nid ` set (nodes c) \<or> b \<notin> nid ` set (nodes c)) \<longrightarrow>
      \<not> no_dangling (snd (addEdge a b c)))"
  using deleteItem_cascades [of n c] no_dangling_deleteItem [of c it]
    no_dangling_addNode [of c t px py] no_dangling_updateNodeText [of c i tx]
    no_dangling_updateEdgeLabel [of c i tx] no_dangling_handleMouseMove [of c rect ev]
    no_dangling_addEdge [of c a b] addEdge_unresolved [of a b c]
  by blast

theorem no_dangling_preserved_witness:
  "no_dangling (snd (addEdge ''node_1'' ''node_1'' example_canvas)) \<and>
   edges (snd (addEdge ''node_1'' ''node_1'' example_canvas)) \<noteq> [] \<and>
   no_dangling (deleteItem (Some (NodeItem example_node))
                  (snd (addEdge ''node_1'' ''node_1'' example_canvas))) \<and>
   edges (deleteItem (Some (NodeItem example_node))
            (snd (addEdge ''node_1'' ''node_1'' example_canvas))) = [] \<and>
   \<not> no_dangling (snd (addEdge ''node_1'' ''node_9'' example_canvas))"
  using no_dangling_preserved [of example_node "snd (addEdge ''node_1'' ''node_1'' example_canvas)"
               "Some (NodeItem example_node)"]
        no_dangling_preserved [of example_node example_canvas None _ _ _ _ _ _ _
               "''node_1''" "''node_1''"]
        no_dangling_preserved [of example_node example_canvas None _ _ _ _ _ _ _
               "''node_1''" "''node_9''"]
  by (simp add: no_dangling_def resolves_def example_canvas_def example_node_def new_canvas_def
        addEdge_def Let_def selectItem_def)

text \<open>
  Claim C6 as stated says that no operation, \<^verbatim>\<open>addEdge\<close> with arbitrary ids
  included, can leave a dangling edge. On the empty canvas, where nothing dangles,
  \<^verbatim>\<open>addEdge('x', 'y')\<close> stores an edge between two nodes that do not exist.
\<close>

theorem addEdge_dangling_edge:
  "no_dangling new_canvas \<and> \<not> no_dangling (snd (addEdge ''x'' ''y'' new_canvas))"
  by (simp add: no_dangling_def resolves_def addEdge_def new_canvas_def Let_def)

section \<open>The minimum size of a node\<close>

text \<open>
  A node that is at least 50 wide and 30 high stays so under every pointer move, and the
  five entries that \<^verbatim>\<open>NodeTypes\<close> has of its own give a new node such a size. So
  the bound is kept by every sequence of pointer moves and of \<^verbatim>\<open>addNode\<close> calls
  with names that are not inherited.
\<close>

lemma size_resizeNode:
  "50 \<le> width n \<and> 30 \<le> height n \<Longrightarrow>
   50 \<le> width (resizeNode d dx dy n) \<and> 30 \<le> height (resizeNode d dx dy n)"
  by (cases "(d, dx, dy, n)" rule: resizeNode.cases) (auto simp: Number_le_iff Number_numerals)

lemma size_moveNode:
  "50 \<le> width n \<and> 30 \<le> height n \<Longrightarrow>
   50 \<le> width (moveNode dx dy n) \<and> 30 \<le> height (moveNode dx dy n)"
  by (simp add: moveNode_def)

lemma min_size_handleMouseMove: "min_size_ok c \<Longrightarrow> min_size_ok (handleMouseMove rect e c)"
  by (simp add: min_size_ok_def handleMouseMove_def Let_def
        list_all_update_first size_resizeNode size_moveNode
           split: option.splits item.splits prod.splits)

lemma default_sizes:
  "NodeTypes t = Some d \<Longrightarrow> t \<notin> set inherited_names \<Longrightarrow>
   50 \<le> defaultWidth d \<and> 30 \<le> defaultHeight d"
  by (auto simp: NodeTypes_def Number_numerals split: if_splits)

lemma min_size_addNode:
  "t \<notin> set inherited_names \<Longrightarrow> min_size_ok c \<Longrightarrow> min_size_ok (snd (addNode t px py c))"
  by (auto simp: min_size_ok_def addNode_def Let_def dest: default_sizes split: option.splits)

lemma min_size_gesture:
  "own_type_gesture g \<Longrightarrow> min_size_ok c \<Longrightarrow> min_size_ok (apply_gesture rect c g)"
  by (cases g) (simp_all add: min_size_addNode min_size_handleMouseMove)

lemma min_size_run:
  "list_all own_type_gesture gs \<Longrightarrow> min_size_ok c \<Longrightarrow> min_size_ok (run_gestures rect gs c)"
  unfolding run_gestures_def
  by (induction gs arbitrary: c) (simp_all add: min_size_gesture)

text \<open>
  Claim C10 on a name that \<^verbatim>\<open>NodeTypes\<close> inherits. On the canvas the constructor
  makes, which has no node below the bound, \<^verbatim>\<open>addNode('constructor', 10, 20)\<close> passes
  the test of its first line, because the lookup finds the constructor function of
  objects, and stores a node whose width and height are \<^verbatim>\<open>undefined\<close>: a node that is
  not at least 50 wide and 30 high.
\<close>

theorem addNode_inherited_name_breaks_min_size:
  "NodeTypes ''constructor''
     = Some \<lparr>defaultWidth = Undefined, defaultHeight = Undefined, shape = None\<rparr> \<and>
   min_size_ok new_canvas \<and>
   map (\<lambda>n. (nodeType n, width n, height n))
       (nodes (run_gestures (0, 0) [AddNode ''constructor'' 10 20] new_canvas))
     = [(''constructor'', Undefined, Undefined)] \<and>
   \<not> min_size_ok (run_gestures (0, 0) [AddNode ''constructor'' 10 20] new_canvas)"
  by (simp add: NodeTypes_def inherited_names_def min_size_ok_def new_canvas_def
        run_gestures_def addNode_def Let_def Number_numerals)

text \<open>Resizing such a node does not repair it: its width becomes \<^verbatim>\<open>NaN\<close>.\<close>

lemma resize_of_missing_size:
  "ToNumber (width n) = None \<Longrightarrow> width (resizeNode (Some k) dx dy n) = NaN"
  by (cases k; cases "width n") (simp_all add: Number_numerals)

section \<open>Resizing and zooming\<close>

text \<open>
  While the new width and height stay above the floor, the corner opposite to the
  dragged handle stays where it was.
\<close>

lemma resize_anchor_fixed_above_floor:
  "50 < width (resizeNode (Some k) dx dy n) \<Longrightarrow> 30 < height (resizeNode (Some k) dx dy n) \<Longrightarrow>
   corner_of (opposite k) (resizeNode (Some k) dx dy n) = corner_of (opposite k) n"
  by (cases k; cases "width n"; cases "height n")
     (auto simp: Number_numerals max_def field_simps split: if_splits)

text \<open>
  Claim C1 at the floor. The example node, 120 by 60 at (100, 100), is resized by its
  south-east handle; the pointer goes 100 to the left. The width stops at 50, the centre
  still moves by half the pointer's way, and the north-west corner goes from (40, 70)
  to (25, 70).
\<close>

theorem resize_at_floor_moves_anchor:
  "corner_of NW example_node = (40, 70) \<and>
   map (corner_of NW)
     (nodes (handleMouseMove (0, 0) \<lparr>clientX = 60, clientY = 130\<rparr> example_canvas))
     = [(25, 70)]"
  by (simp add: example_canvas_def example_node_def new_canvas_def handleMouseMove_def
        viewportToCanvas_def Let_def Number_numerals)

text \<open>
  Claim C4 on the initial camera. The pointer is at client position (100, 100), over the
  canvas point (100, 100); after one zoom-in step of the wheel (negative \<^verbatim>\<open>deltaY\<close>)
  the same client position is over the canvas point (1110/11, 1110/11), so the point
  under the pointer has not stayed where it was.
\<close>

theorem handleWheel_moves_point_under_cursor:
  "viewportToCanvas (0, 0) new_canvas 100 100 = (100, 100) \<and>
   viewportToCanvas (0, 0)
     (handleWheel (0, 0) \<lparr>clientX = 100, clientY = 100, deltaY = - 1\<rparr> new_canvas) 100 100
     = (1110 / 11, 1110 / 11)"
  by (simp add: new_canvas_def handleWheel_def viewportToCanvas_def Let_def)

text \<open>
  The drift is not particular to that camera: with both offsets at zero, a zoom-in step
  moves the canvas point under the pointer away from the origin by the factor 111/110,
  whatever the scale and the pointer position.
\<close>

lemma handleWheel_zoom_in_drift:
  assumes "offsetX c = 0" "offsetY c = 0" "deltaY e < 0"
  shows "viewportToCanvas rect (handleWheel rect e c) (clientX e) (clientY e) =
         (111 / 110 * fst (viewportToCanvas rect c (clientX e) (clientY e)),
          111 / 110 * snd (viewportToCanvas rect c (clientX e) (clientY e)))"
  using assms
  by (cases "scale c = 0")
     (simp_all add: handleWheel_def viewportToCanvas_def Let_def field_simps)

section \<open>Connection points\<close>

text \<open>On an ellipse with a positive width and height the connection point is on the
  outline, for every target.\<close>

lemma ellipse_on_outline:
  assumes "0 < width n" and "0 < height n"
  shows "on_outline Ellipse n (getConnectionPoint Ellipse n t)"
proof -
  from assms obtain w h where wh: "width n = Number w" "0 < w" "height n = Number h" "0 < h"
    by (auto simp: Number_less_iff Number_numerals)
  then show ?thesis
    by (simp add: on_outline_def getConnectionPoint_ellipse_def Let_def Number_numerals)
qed

text \<open>
  On a rectangle as well. Where the tangent of the angle is steeper than the diagonal the
  point is put on the top or the bottom side, otherwise on the left or the right side, and
  in both cases within the side's ends.
\<close>

lemma atan2_bounds: "- pi < atan2 dy dx \<and> atan2 dy dx \<le> pi"
proof -
  have a: "- (pi / 2) < arctan (dy / dx)" "arctan (dy / dx) < pi / 2"
    by (rule arctan_lbound, rule arctan_ubound)
  have "dx < 0 \<Longrightarrow> 0 \<le> dy \<Longrightarrow> arctan (dy / dx) \<le> 0"
    by (simp add: divide_nonneg_neg)
  moreover have "dx < 0 \<Longrightarrow> dy < 0 \<Longrightarrow> 0 < arctan (dy / dx)"
    by (simp add: divide_neg_neg)
  ultimately show ?thesis
    using a pi_gt_zero by (auto simp: atan2_def)
qed

lemma on_segment_Number:
  "on_segment (Number ax, Number ay) (Number bx, Number by) (Number px, Number py) \<longleftrightarrow>
     (bx - ax) * (py - ay) - (by - ay) * (px - ax) = 0 \<and>
     min ax bx \<le> px \<and> px \<le> max ax bx \<and> min ay by \<le> py \<and> py \<le> max ay by"
  by (simp add: on_segment_def Number_numerals)

lemma rect_path:
  "on_closed_path (path_points Rectangle cx cy (Number w) (Number h)) p \<longleftrightarrow>
     on_segment (Number (cx - w / 2), Number (cy - h / 2))
                (Number (cx - w / 2 + w), Number (cy - h / 2)) p \<or>
     on_segment (Number (cx - w / 2 + w), Number (cy - h / 2))
                (Number (cx - w / 2 + w), Number (cy - h / 2 + h)) p \<or>
     on_segment (Number (cx - w / 2 + w), Number (cy - h / 2 + h))
                (Number (cx - w / 2), Number (cy - h / 2 + h)) p \<or>
     on_segment (Number (cx - w / 2), Number (cy - h / 2 + h))
                (Number (cx - w / 2), Number (cy - h / 2)) p"
  by (simp add: on_closed_path_def Number_numerals)

lemma on_top_edge:
  assumes "0 \<le> w" "\<bar>px - cx\<bar> \<le> w / 2"
  shows "on_closed_path (path_points Rectangle cx cy (Number w) (Number h))
           (Number px, Number (cy - h / 2))"
proof -
  from assms have "cx - w / 2 \<le> px" "px \<le> cx - w / 2 + w" by linarith+
  then have "on_segment (Number (cx - w / 2), Number (cy - h / 2))
                (Number (cx - w / 2 + w), Number (cy - h / 2)) (Number px, Number (cy - h / 2))"
    using assms(1) by (simp add: on_segment_Number min_def max_def)
  then show ?thesis by (simp only: rect_path) blast
qed

lemma on_bottom_edge:
  assumes "0 \<le> w" "\<bar>px - cx\<bar> \<le> w / 2"
  shows "on_closed_path (path_points Rectangle cx cy (Number w) (Number h))
           (Number px, Number (cy + h / 2))"
proof -
  from assms have "cx - w / 2 \<le> px" "px \<le> cx - w / 2 + w" by linarith+
  moreover have "cy + h / 2 = cy - h / 2 + h" by simp
  ultimately
  have "on_segment (Number (cx - w / 2 + w), Number (cy - h / 2 + h))
                (Number (cx - w / 2), Number (cy - h / 2 + h)) (Number px, Number (cy + h / 2))"
    using assms(1) by (simp add: on_segment_Number min_def max_def)
  then show ?thesis by (simp only: rect_path) blast
qed

lemma on_right_edge:
  assumes "0 \<le> h" "\<bar>py - cy\<bar> \<le> h / 2"
  shows "on_closed_path (path_points Rectangle cx cy (Number w) (Number h))
           (Number (cx + w / 2), Number py)"
proof -
  from assms have "cy - h / 2 \<le> py" "py \<le> cy - h / 2 + h" by linarith+
  moreover have "cx + w / 2 = cx - w / 2 + w" by simp
  ultimately
  have "on_segment (Number (cx - w / 2 + w), Number (cy - h / 2))
                (Number (cx - w / 2 + w), Number (cy - h / 2 + h)) (Number (cx + w / 2), Number py)"
    using assms(1) by (simp add: on_segment_Number min_def max_def)
  then show ?thesis by (simp only: rect_path) blast
qed

lemma on_left_edge:
  assumes "0 \<le> h" "\<bar>py - cy\<bar> \<le> h / 2"
  shows "on_closed_path (path_points Rectangle cx cy (Number w) (Number h))
           (Number (cx - w / 2), Number py)"
proof -
  from assms have "cy - h / 2 \<le> py" "py \<le> cy - h / 2 + h" by linarith+
  then have "on_segment (Number (cx - w / 2), Number (cy - h / 2 + h))
                (Number (cx - w / 2), Number (cy - h / 2)) (Number (cx - w / 2), Number py)"
    using assms(1) by (simp add: on_segment_Number min_def max_def)
  then show ?thesis by (simp only: rect_path) blast
qed

lemma steep_bound:
  fixes s :: real
  assumes w: "0 < w" and h: "0 < h" and T: "\<bar>T\<bar> > h / w" and that: "\<bar>s\<bar> = 1"
  shows "\<bar>h / 2 * inverse T * s\<bar> \<le> w / 2"
proof -
  have "0 < h / w" using w h by simp
  with T have pos: "0 < \<bar>T\<bar>" by linarith
  from T w have "h < \<bar>T\<bar> * w" by (simp add: pos_divide_less_eq)
  then have "h * inverse \<bar>T\<bar> < w"
    using pos by (simp add: field_simps)
  moreover have "\<bar>h / 2 * inverse T * s\<bar> = (h * inverse \<bar>T\<bar>) / 2"
    using h that by (simp add: abs_mult)
  ultimately show ?thesis by simp
qed

lemma flat_bound:
  fixes s :: real
  assumes w: "0 < w" and h: "0 < h" and T: "\<not> \<bar>T\<bar> > h / w" and that: "\<bar>s\<bar> = 1"
  shows "\<bar>w / 2 * T * s\<bar> \<le> h / 2"
proof -
  from T w have "\<bar>T\<bar> * w \<le> h" by (simp add: pos_le_divide_eq not_less)
  moreover have "\<bar>w / 2 * T * s\<bar> = (\<bar>T\<bar> * w) / 2"
    using w that by (simp add: abs_mult)
  ultimately show ?thesis by simp
qed

lemma Math_tan_complement:
  assumes "- pi < a" "a \<le> pi" "Math_tan a \<noteq> 0" "a \<noteq> pi / 2" "a \<noteq> - (pi / 2)"
  shows "Math_tan (pi / 2 - a) = inverse (Math_tan a)"
proof -
  from assms have t: "Math_tan a = tan a" by (simp add: Math_tan_def)
  with assms have "tan a \<noteq> 0" by simp
  then have "a \<noteq> 0" "a \<noteq> pi" by auto
  with assms have "pi / 2 - a \<noteq> pi / 2" "pi / 2 - a \<noteq> - (pi / 2)" by auto
  then have "Math_tan (pi / 2 - a) = tan (pi / 2 - a)" by (simp add: Math_tan_def)
  with t show ?thesis by (simp add: tan_cot)
qed

lemma Math_tan_zero: "Math_tan 0 = 0" "Math_tan pi = 0"
proof -
  have "(0::real) \<noteq> pi / 2" "(0::real) \<noteq> - (pi / 2)" "pi \<noteq> pi / 2" "pi \<noteq> - (pi / 2)"
    using pi_gt_zero by linarith+
  then show "Math_tan 0 = 0" "Math_tan pi = 0" by (simp_all add: Math_tan_def)
qed

lemma process_steep:
  assumes w: "0 < w" and h: "0 < h"
    and steep: "\<bar>Math_tan (atan2 dy dx)\<bar> > h / w" and s: "\<bar>s\<bar> = (1::real)"
  shows "\<bar>h / 2 * Math_tan (pi / 2 - atan2 dy dx) * s\<bar> \<le> w / 2"
proof -
  define a where "a = atan2 dy dx"
  have ab: "- pi < a" "a \<le> pi" using atan2_bounds by (simp_all add: a_def)
  have "0 < h / w" using w h by simp
  with steep have T0: "Math_tan a \<noteq> 0" unfolding a_def by auto
  have "\<bar>h / 2 * Math_tan (pi / 2 - a) * s\<bar> \<le> w / 2"
  proof (cases "a = pi / 2 \<or> a = - (pi / 2)")
    case True
    then have "Math_tan (pi / 2 - a) = 0"
    proof
      assume "a = pi / 2"
      then have "pi / 2 - a = 0" by simp
      then show ?thesis by (simp only: Math_tan_zero)
    next
      assume "a = - (pi / 2)"
      then have "pi / 2 - a = pi" by simp
      then show ?thesis by (simp only: Math_tan_zero)
    qed
    with w show ?thesis by simp
  next
    case False
    with Math_tan_complement [OF ab T0] have "Math_tan (pi / 2 - a) = inverse (Math_tan a)"
      by simp
    with steep_bound [OF w h steep [folded a_def] s] show ?thesis by simp
  qed
  then show ?thesis by (simp only: a_def)
qed

lemma process_on_outline:
  assumes "0 < width n" and "0 < height n"
  shows "on_outline Rectangle n (getConnectionPoint Rectangle n t)"
proof -
  from assms obtain w h where wn: "width n = Number w" and w: "0 < w"
    and hn: "height n = Number h" and h: "0 < h"
    by (auto simp: Number_less_iff Number_numerals)
  define dx where "dx = fst t - nx n"
  define dy where "dy = snd t - ny n"
  define T where "T = Math_tan (atan2 dy dx)"
  define C where "C = Math_tan (pi / 2 - atan2 dy dx)"
  have w0: "0 \<le> w" and h0: "0 \<le> h" using w h by simp_all
  have outline: "on_outline Rectangle n p \<longleftrightarrow>
      on_closed_path (path_points Rectangle (nx n) (ny n) (Number w) (Number h)) p" for p
    by (simp add: on_outline_def wn hn)
  show ?thesis
  proof (cases "\<bar>T\<bar> > h / w")
    case True
    note st = process_steep [OF w h True [unfolded T_def], folded C_def]
    have p: "getConnectionPoint Rectangle n t =
        (Number (nx n + h / 2 * C * (if dy > 0 then 1 else - 1)),
         Number (if dy > 0 then ny n + h / 2 else ny n - h / 2))"
      using True
      by (simp add: getConnectionPoint_process_def Let_def dx_def dy_def T_def C_def wn hn
            Number_numerals)
    show ?thesis
    proof (cases "dy > 0")
      case True
      from st [of 1] have "\<bar>(nx n + h / 2 * C * 1) - nx n\<bar> \<le> w / 2" by simp
      from on_bottom_edge [OF w0 this, of "ny n" h] True p
      show ?thesis by (simp add: outline)
    next
      case False
      from st [of "- 1"] have "\<bar>(nx n + h / 2 * C * - 1) - nx n\<bar> \<le> w / 2" by simp
      from on_top_edge [OF w0 this, of "ny n" h] False p
      show ?thesis by (simp add: outline)
    qed
  next
    case False
    note fl = flat_bound [OF w h False]
    have p: "getConnectionPoint Rectangle n t =
        (Number (if dx > 0 then nx n + w / 2 else nx n - w / 2),
         Number (ny n + w / 2 * T * (if dx > 0 then 1 else - 1)))"
      using False
      by (simp add: getConnectionPoint_process_def Let_def dx_def dy_def T_def wn hn
            Number_numerals)
    show ?thesis
    proof (cases "dx > 0")
      case True
      from fl [of 1] have "\<bar>(ny n + w / 2 * T * 1) - ny n\<bar> \<le> h / 2" by simp
      from on_right_edge [OF h0 this, of "nx n" w] True p
      show ?thesis by (simp add: outline)
    next
      case False
      from fl [of "- 1"] have "\<bar>(ny n + w / 2 * T * - 1) - ny n\<bar> \<le> h / 2" by simp
      from on_left_edge [OF h0 this, of "nx n" w] False p
      show ?thesis by (simp add: outline)
    qed
  qed
qed

text \<open>
  Claim C2 on a decision node. The node has its default size, 120 by 80, and sits at the
  origin; the other node is 200 to the right. The connection point is (60, 280/3): not on
  the rhombus, and not inside it either.
\<close>

theorem decision_connection_point_off_outline:
  "NodeTypes (nodeType example_decision)
     = Some \<lparr>defaultWidth = 120, defaultHeight = 80, shape = Some Rhombus\<rparr> \<and>
   getConnectionPoint Rhombus example_decision (200, 0) = (60, 280 / 3) \<and>
   \<not> on_outline Rhombus example_decision (60, 280 / 3) \<and>
   \<not> containsPoint Rhombus example_decision 60 (280 / 3)"
  by (simp add: example_decision_def NodeTypes_def getConnectionPoint_decision_def atan2_def
        Math_tan_def on_outline_def on_closed_path_def on_segment_def Let_def Number_numerals)

text \<open>
  The same on an input node of default size: the connection point towards a node 200 to
  the right is (30, 0), inside the parallelogram, whose right side crosses that line at
  (60, 0).
\<close>

lemma input_connection_point_off_outline:
  "getConnectionPoint Parallelogram example_input (200, 0) = (30, 0) \<and>
   \<not> on_outline Parallelogram example_input (30, 0) \<and>
   on_outline Parallelogram example_input (60, 0)"
  by (simp add: example_input_def getConnectionPoint_input_def atan2_def
        Math_tan_def on_outline_def on_closed_path_def on_segment_def Let_def Number_numerals)

section \<open>Properties of the storage manager\<close>

text \<open>
  Claim C8 on \<^verbatim>\<open>deleteFlowchart\<close>. Deleting a name that is not in the list, and
  deleting a listed name when the browser refuses the write of the list, throw the same
  \<^verbatim>\<open>Error\<close>: the caller cannot tell them apart.
\<close>

theorem deleteFlowchart_not_found_indistinct:
  "fst (deleteFlowchart ''nope'' (open_storage :: unit localStorage))
     = Inl (JsError ''Failed to delete flowchart'') \<and>
   fst (deleteFlowchart ''a''
          (failing_storage (DOMException ''SecurityError'' ''denied'') :: unit localStorage))
     = Inl (JsError ''Failed to delete flowchart'')"
  by (simp add: deleteFlowchart_def deleteFlowchart_try_def getFlowchartList_def getItem_def
        open_storage_def failing_storage_def updateFlowchartList_def setItem_def)

text \<open>
  On \<^verbatim>\<open>saveFlowchart\<close> a full storage is reported as such when the write of the
  flowchart hits it, and as a plain failure when the write of the list of names does.
\<close>

lemma saveFlowchart_quota_on_list_write:
  "fst (saveFlowchart_storage ''b'' ()
          (failing_storage (DOMException ''QuotaExceededError'' ''full'')))
     = Inl (JsError ''Failed to save flowchart'') \<and>
   fst (saveFlowchart_storage ''a'' ()
          (failing_storage (DOMException ''QuotaExceededError'' ''full'')))
     = Inl (JsError ''Storage quota exceeded. Try deleting some flowcharts first.'')"
  by (simp add: saveFlowchart_storage_def saveFlowchart_try_def getFlowchartList_def getItem_def
        failing_storage_def updateFlowchartList_def setItem_def)

text \<open>\<^verbatim>\<open>loadFlowchart\<close> of an unknown name keeps the reason in its message.\<close>

lemma loadFlowchart_not_found:
  "loadFlowchart_storage ''nope'' (open_storage :: unit localStorage)
     = Inl (JsError (''Failed to load flowchart: Flowchart '' @ quoted ''nope'' @ '' not found''))"
  by (simp add: loadFlowchart_storage_def loadFlowchart_try_def getItem_def open_storage_def
       FLOWCHART_LIST_KEY_def FLOWCHART_PREFIX_def)

section \<open>Snapshots\<close>

lemma deref_append: "r < length h \<Longrightarrow> deref (h @ xs) r = deref h r"
  by (simp add: deref_def nth_append)

lemma deref_Some_less: "deref h r = Some v \<Longrightarrow> r < length h"
  by (simp add: deref_def split: if_splits)

lemma elements_append: "a < length h \<Longrightarrow> elements (h @ xs) a = elements h a"
  by (simp add: elements_def deref_append)

lemma saveFlowchart_eq:
  assumes "deref h (nodesRef c) = Some (ArrayObj ns)" and "deref h (edgesRef c) = Some (ArrayObj es)"
  shows "saveFlowchart c h =
           (\<lparr>snap_nodes = length h, snap_edges = Suc (length h),
             snap_nodeCounter = nodeCounterRef c, snap_edgeCounter = edgeCounterRef c\<rparr>,
            h @ [ArrayObj ns, ArrayObj es])"
  using assms deref_Some_less [OF assms(2)]
  by (simp add: saveFlowchart_def alloc_def elements_def deref_append)

lemma elements_update_node:
  "node_at h r = Some n \<Longrightarrow> elements (h[r := NodeObj m]) a = elements h a"
  by (auto simp: elements_def node_at_def deref_def nth_list_update split: if_splits option.splits obj.splits)

lemma elements_update_edge:
  "edge_at h r = Some e \<Longrightarrow> elements (h[r := EdgeObj m]) a = elements h a"
  by (auto simp: elements_def edge_at_def deref_def nth_list_update split: if_splits option.splits obj.splits)

lemma elements_mutate_node: "elements (mutate_node i f c h) a = elements h a"
  by (simp add: mutate_node_def elements_update_node split: option.splits)

lemma elements_mutate_edge: "elements (mutate_edge i f c h) a = elements h a"
  by (simp add: mutate_edge_def elements_update_edge split: option.splits)

lemma read_nodes_cong: "elements h a = elements h b \<Longrightarrow> read_nodes h a = read_nodes h b"
  by (simp add: read_nodes_def)

lemma read_edges_cong: "elements h a = elements h b \<Longrightarrow> read_edges h a = read_edges h b"
  by (simp add: read_edges_def)

lemma map_filter_cong_set:
  "(\<And>r. r \<in> set rs \<Longrightarrow> f r = g r) \<Longrightarrow> List.map_filter f rs = List.map_filter g rs"
  by (induction rs) (auto split: option.splits)

lemma node_at_push:
  assumes "r < length h"
  shows "node_at ((h @ [NodeObj n])[a := ArrayObj rs]) r =
         (if a = r then None else node_at h r)"
  using assms
  by (auto simp: node_at_def deref_def nth_list_update nth_append split: obj.splits)

lemma aliasing_after_save:
  assumes live: "deref h (nodesRef c) = Some (ArrayObj ns)" "deref h (edgesRef c) = Some (ArrayObj es)"
    and save: "saveFlowchart c h = (s, h1)"
  shows "snap_nodes s \<noteq> nodesRef c" "snap_edges s \<noteq> edgesRef c"
    "elements h1 (snap_nodes s) = ns" "elements h1 (snap_edges s) = es"
    "elements h1 (nodesRef c) = ns" "elements h1 (edgesRef c) = es"
proof -
  from live have lt: "nodesRef c < length h" "edgesRef c < length h"
    by (auto dest: deref_Some_less)
  from save saveFlowchart_eq [OF live]
  have s: "s = \<lparr>snap_nodes = length h, snap_edges = Suc (length h),
             snap_nodeCounter = nodeCounterRef c, snap_edgeCounter = edgeCounterRef c\<rparr>"
    and h1: "h1 = h @ [ArrayObj ns, ArrayObj es]" by simp_all
  show "snap_nodes s \<noteq> nodesRef c" "snap_edges s \<noteq> edgesRef c"
    using lt by (simp_all add: s)
  show "elements h1 (snap_nodes s) = ns" "elements h1 (snap_edges s) = es"
    by (simp_all add: s h1 elements_def deref_def nth_append)
  show "elements h1 (nodesRef c) = ns" "elements h1 (edgesRef c) = es"
    using lt live by (simp_all add: h1 elements_append) (simp_all add: elements_def)
qed

lemma snapshot_sees_mutation:
  assumes live: "deref h (nodesRef c) = Some (ArrayObj ns)" "deref h (edgesRef c) = Some (ArrayObj es)"
    and save: "saveFlowchart c h = (s, h1)"
  shows "read_nodes (mutate_node i f c h1) (snap_nodes s) = read_nodes (mutate_node i f c h1) (nodesRef c)"
    and "read_edges (mutate_edge j g c h1) (snap_edges s) = read_edges (mutate_edge j g c h1) (edgesRef c)"
  using aliasing_after_save [OF live save]
  by (simp_all add: read_nodes_cong read_edges_cong elements_mutate_node elements_mutate_edge)

lemma snapshot_ignores_push:
  assumes live: "deref h (nodesRef c) = Some (ArrayObj ns)" "deref h (edgesRef c) = Some (ArrayObj es)"
    and refs: "\<forall>r \<in> set ns. r < length h"
    and save: "saveFlowchart c h = (s, h1)"
  shows "read_nodes (snd (snd (addNode_store t px py c h1))) (snap_nodes s) = read_nodes h1 (snap_nodes s)"
proof (cases "NodeTypes t")
  case None
  then show ?thesis by (simp add: addNode_store_def)
next
  case (Some d)
  from live have lt: "nodesRef c < length h" "edgesRef c < length h"
    by (auto dest: deref_Some_less)
  from save saveFlowchart_eq [OF live]
  have s: "snap_nodes s = length h" and h1: "h1 = h @ [ArrayObj ns, ArrayObj es]" by auto
  define n where "n = \<lparr>nid = ''node_'' @ show_nat (Suc (nodeCounterRef c)), nodeType = t, nx = px, ny = py,
                    width = defaultWidth d, height = defaultHeight d, ntext = capitalize t\<rparr>"
  define rs where "rs = elements (h1 @ [NodeObj n]) (nodesRef c) @ [length h1]"
  define h2 where "h2 = (h1 @ [NodeObj n])[nodesRef c := ArrayObj rs]"
  have res: "snd (snd (addNode_store t px py c h1)) = h2"
    by (simp add: addNode_store_def Some alloc_def Let_def h2_def rs_def n_def)
  have el: "elements h2 (snap_nodes s) = ns"
    using lt by (simp add: h2_def s h1 elements_def deref_def nth_append nth_list_update)
  have el1: "elements h1 (snap_nodes s) = ns"
    by (simp add: s h1 elements_def deref_def nth_append)
  have "node_at h2 r = node_at h1 r" if "r \<in> set ns" for r
  proof -
    from that refs have r: "r < length h1" by (auto simp: h1)
    have "node_at h2 r = (if nodesRef c = r then None else node_at h1 r)"
      by (simp add: h2_def node_at_push [OF r])
    moreover have "node_at h1 (nodesRef c) = None"
      using live lt by (simp add: node_at_def h1 deref_append)
    ultimately show ?thesis by auto
  qed
  then have "List.map_filter (node_at h2) ns = List.map_filter (node_at h1) ns"
    by (rule map_filter_cong_set)
  then show ?thesis by (simp add: res read_nodes_def el el1)
qed

text \<open>
  The store and the lists of values agree on what a change in place does: when the live
  array holds distinct references to nodes, reading it after \<open>mutate_node\<close> gives the
  list read before with its first matching node replaced.
\<close>

lemma update_first_none: "\<forall>v \<in> set xs. \<not> P v \<Longrightarrow> update_first P f xs = xs"
  by (induction xs) auto

lemma node_at_update_other: "r \<noteq> x \<Longrightarrow> node_at (h[r := v]) x = node_at h x"
  by (simp add: node_at_def deref_def)

lemma node_at_update_same:
  "node_at h r = Some n \<Longrightarrow> node_at (h[r := NodeObj m]) r = Some m"
  by (simp add: node_at_def deref_def split: if_splits)

lemma map_filter_update_absent:
  "r \<notin> set rs \<Longrightarrow> List.map_filter (node_at (h[r := v])) rs = List.map_filter (node_at h) rs"
  by (induction rs) (auto simp: node_at_update_other split: option.splits)

lemma read_after_mutation:
  assumes "distinct rs" and "\<forall>x \<in> set rs. node_at h x \<noteq> None"
    and "find (\<lambda>x. case node_at h x of Some m \<Rightarrow> nid m = i | None \<Rightarrow> False) rs = Some r"
    and "node_at h r = Some n"
  shows "List.map_filter (node_at (h[r := NodeObj (f n)])) rs =
         update_first (\<lambda>m. nid m = i) f (List.map_filter (node_at h) rs)"
  using assms
proof (induction rs)
  case Nil
  then show ?case by simp
next
  case (Cons x rs)
  from Cons.prems(2) obtain m where m: "node_at h x = Some m" by auto
  show ?case
  proof (cases "nid m = i")
    case True
    with Cons.prems(3) m have "r = x" by simp
    with Cons.prems m True have "n = m" "x \<notin> set rs" by auto
    with \<open>r = x\<close> m True show ?thesis
      by (simp add: node_at_update_same map_filter_update_absent)
  next
    case False
    with Cons.prems(3) m
    have f: "find (\<lambda>x. case node_at h x of Some m \<Rightarrow> nid m = i | None \<Rightarrow> False) rs = Some r"
      by simp
    then have "r \<in> set rs" by (auto simp: find_Some_iff)
    with Cons.prems(1) have "r \<noteq> x" by auto
    with Cons.IH [OF _ _ f Cons.prems(4)] Cons.prems(1,2) m False show ?thesis
      by (simp add: node_at_update_other)
  qed
qed

lemma mutate_node_refines:
  assumes live: "deref h (nodesRef c) = Some (ArrayObj rs)"
    and "distinct rs" and "\<forall>x \<in> set rs. node_at h x \<noteq> None"
  shows "read_nodes (mutate_node i f c h) (nodesRef c) =
         update_first (\<lambda>m. nid m = i) f (read_nodes h (nodesRef c))"
proof -
  let ?Q = "\<lambda>x. case node_at h x of Some m \<Rightarrow> nid m = i | None \<Rightarrow> False"
  from live have el: "elements h (nodesRef c) = rs" by (simp add: elements_def)
  show ?thesis
  proof (cases "find ?Q rs")
    case None
    then have "\<forall>x \<in> set rs. \<not> ?Q x" by (auto simp: find_None_iff)
    then have "\<forall>m \<in> set (List.map_filter (node_at h) rs). nid m \<noteq> i"
      by (auto simp: List.map_filter_def)
    with None el show ?thesis
      by (simp add: mutate_node_def read_nodes_def update_first_none)
  next
    case (Some r)
    then have "?Q r" by (auto simp: find_Some_iff)
    then obtain n where n: "node_at h r = Some n" by (auto split: option.splits)
    have "elements (h[r := NodeObj (f n)]) (nodesRef c) = rs"
      using n live el
      by (auto simp: elements_def node_at_def deref_def nth_list_update
               split: if_splits option.splits obj.splits)
    with Some n el read_after_mutation [OF assms(2,3) Some n, of f] show ?thesis
      by (simp add: mutate_node_def read_nodes_def)
  qed
qed

text \<open>
  Claim C7, as the code has it. When \<^verbatim>\<open>this.nodes\<close> and \<^verbatim>\<open>this.edges\<close> are arrays,
  the snapshot returned by \<^verbatim>\<open>saveFlowchart\<close> has arrays of its own, which hold the
  same references as the live arrays: the copy is one level deep. After a node or an edge
  of the live graph is changed in place, the snapshot shows what the live graph shows.
  A node pushed onto the live array afterwards does not reach the snapshot (for a live
  array whose references are all in the store).
\<close>

theorem snapshot_is_shallow_copy:
  "deref h (nodesRef c) = Some (ArrayObj ns) \<and> deref h (edgesRef c) = Some (ArrayObj es) \<and>
   saveFlowchart c h = (s, h1) \<longrightarrow>
     snap_nodes s \<noteq> nodesRef c \<and> snap_edges s \<noteq> edgesRef c \<and>
     elements h1 (snap_nodes s) = elements h1 (nodesRef c) \<and>
     elements h1 (snap_edges s) = elements h1 (edgesRef c) \<and>
     read_nodes (mutate_node i f c h1) (snap_nodes s) = read_nodes (mutate_node i f c h1) (nodesRef c) \<and>
     read_edges (mutate_edge j g c h1) (snap_edges s) = read_edges (mutate_edge j g c h1) (edgesRef c) \<and>
     ((\<forall>r \<in> set ns. r < length h) \<longrightarrow>
        read_nodes (snd (snd (addNode_store t px py c h1))) (snap_nodes s) = read_nodes h1 (snap_nodes s))"
proof (intro impI, elim conjE)
  assume live: "deref h (nodesRef c) = Some (ArrayObj ns)" "deref h (edgesRef c) = Some (ArrayObj es)"
    and save: "saveFlowchart c h = (s, h1)"
  note al = aliasing_after_save [OF live save]
  have "elements h1 (snap_nodes s) = elements h1 (nodesRef c)"
       "elements h1 (snap_edges s) = elements h1 (edgesRef c)"
    by (simp_all add: al)
  moreover have "(\<forall>r \<in> set ns. r < length h) \<longrightarrow>
        read_nodes (snd (snd (addNode_store t px py c h1))) (snap_nodes s) = read_nodes h1 (snap_nodes s)"
    using snapshot_ignores_push [OF live _ save] by blast
  ultimately show "snap_nodes s \<noteq> nodesRef c \<and> snap_edges s \<noteq> edgesRef c \<and>
     elements h1 (snap_nodes s) = elements h1 (nodesRef c) \<and>
     elements h1 (snap_edges s) = elements h1 (edgesRef c) \<and>
     read_nodes (mutate_node i f c h1) (snap_nodes s) = read_nodes (mutate_node i f c h1) (nodesRef c) \<and>
     read_edges (mutate_edge j g c h1) (snap_edges s) = read_edges (mutate_edge j g c h1) (edgesRef c) \<and>
     ((\<forall>r \<in> set ns. r < length h) \<longrightarrow>
        read_nodes (snd (snd (addNode_store t px py c h1))) (snap_nodes s) = read_nodes h1 (snap_nodes s))"
    using al(1,2) snapshot_sees_mutation [OF live save]
    by blast
qed

theorem snapshot_is_shallow_copy_witness:
  "deref example_store (nodesRef example_refs) = Some (ArrayObj [2]) \<and>
   deref example_store (edgesRef example_refs) = Some (ArrayObj []) \<and>
   saveFlowchart example_refs example_store = (example_snapshot, example_saved_store) \<and>
   list_all (\<lambda>r. r < length example_store) [2] \<and>
   read_nodes example_saved_store (snap_nodes example_snapshot) = [example_node] \<and>
   snap_nodes example_snapshot \<noteq> nodesRef example_refs \<and>
   read_nodes (mutate_node ''node_1'' (moveNode 10 10) example_refs example_saved_store)
      (snap_nodes example_snapshot)
     = read_nodes (mutate_node ''node_1'' (moveNode 10 10) example_refs example_saved_store)
         (nodesRef example_refs) \<and>
   read_nodes (snd (snd (addNode_store ''start'' 0 0 example_refs example_saved_store)))
      (snap_nodes example_snapshot) = read_nodes example_saved_store (snap_nodes example_snapshot)"
proof -
  have a: "deref example_store (nodesRef example_refs) = Some (ArrayObj [2])"
    and b: "deref example_store (edgesRef example_refs) = Some (ArrayObj [])"
    by (simp_all add: example_store_def example_refs_def deref_def)
  have c: "saveFlowchart example_refs example_store = (example_snapshot, example_saved_store)"
    by (simp add: example_snapshot_def example_saved_store_def)
  have d: "\<forall>r \<in> set [2::nat]. r < length example_store"
    by (simp add: example_store_def)
  have e: "read_nodes example_saved_store (snap_nodes example_snapshot) = [example_node]"
    by (simp add: example_saved_store_def example_snapshot_def saveFlowchart_def alloc_def
        example_store_def example_refs_def elements_def deref_def read_nodes_def node_at_def
        Let_def)
  note r = snapshot_is_shallow_copy [of example_store example_refs "[2]" "[]" example_snapshot example_saved_store
             "''node_1''" "moveNode 10 10" _ _ "''start''" 0 0,
             THEN mp, OF conjI [OF a conjI [OF b c]]]
  have d': "list_all (\<lambda>r. r < length example_store) [2]"
    by (simp add: example_store_def)
  show ?thesis using a b c d d' e r by blast
qed

text \<open>
  Claim C7 as stated says that changing a live node leaves the snapshot as it was. The
  snapshot of the example store shows the example node; after the node's text is edited,
  or the node is dragged by (10, 10), the same snapshot shows the changed node.
\<close>

theorem snapshot_sees_live_mutation:
  "read_nodes example_saved_store (snap_nodes example_snapshot) = [example_node] \<and>
   read_nodes (updateNodeText_store ''node_1'' ''Edited'' example_refs example_saved_store)
     (snap_nodes example_snapshot) = [example_node\<lparr>ntext := ''Edited''\<rparr>] \<and>
   read_nodes (dragNode_store ''node_1'' 10 10 example_refs example_saved_store)
     (snap_nodes example_snapshot) = [example_node\<lparr>nx := 110, ny := 110\<rparr>]"
  by (simp add: example_saved_store_def example_snapshot_def saveFlowchart_def alloc_def
        example_store_def example_refs_def elements_def deref_def read_nodes_def node_at_def
        updateNodeText_store_def dragNode_store_def mutate_node_def moveNode_def
        example_node_def Let_def)

section \<open>Properties of the validation engine\<close>

text \<open>
  The depth budget is never used up. A search only goes into nodes that are not yet
  visited, and no visited node becomes unvisited again, so with a budget above the number
  of unvisited keys of the graph the answer is never \<open>OutOfFuel\<close>; \<^verbatim>\<open>checkForCycles\<close>
  starts with one more than the number of nodes.
\<close>

lemma visited_mono:
  "dfs k g ns i p st = Returned (b, st') \<Longrightarrow> set (visited st) \<subseteq> set (visited st')"
  "dfs_neighbors k g ns i p nbs st = Returned (b, st') \<Longrightarrow> set (visited st) \<subseteq> set (visited st')"
proof (induction k g ns i p st and k g ns i p nbs st arbitrary: b st' and b st'
       rule: dfs_dfs_neighbors.induct)
  case (1 graph ns nodeId path st)
  then show ?case by simp
next
  case (2 k graph ns nodeId path st)
  from "2.prems" obtain nbs where g: "graph nodeId = Some nbs"
    by (auto simp: Let_def split: option.splits)
  with "2.prems" have "dfs_neighbors k graph ns nodeId (path @ [nodeId]) nbs
      (st\<lparr>visited := List.insert nodeId (visited st),
          recStack := List.insert nodeId (recStack st)\<rparr>) = Returned (b, st')"
    by (simp add: Let_def)
  from "2.IH" [OF refl refl g this] show ?case by auto
next
  case (3 k graph ns nodeId path st)
  then show ?case by auto
next
  case (4 k graph ns nodeId path neighbor rest st)
  show ?case
  proof (cases "neighbor \<notin> set (visited st)")
    case True
    with "4.prems" obtain found st1 where
      d: "dfs k graph ns neighbor path st = Returned (found, st1)"
      by (auto split: outcome.splits)
    from "4.IH"(1) [OF True d] have sub: "set (visited st) \<subseteq> set (visited st1)" .
    show ?thesis
    proof (cases found)
      case True
      with d \<open>neighbor \<notin> set (visited st)\<close> "4.prems" sub show ?thesis by auto
    next
      case False
      with d \<open>neighbor \<notin> set (visited st)\<close> "4.prems"
      have "dfs_neighbors k graph ns nodeId path rest st1 = Returned (b, st')" by simp
      from "4.IH"(2) [OF \<open>neighbor \<notin> set (visited st)\<close> d refl False this] sub
      show ?thesis by auto
    qed
  next
    case False
    show ?thesis
    proof (cases "neighbor \<in> set (recStack st)")
      case True
      with False "4.prems" show ?thesis by auto
    next
      case nr: False
      with False "4.prems"
      have "dfs_neighbors k graph ns nodeId path rest st = Returned (b, st')" by simp
      from "4.IH"(3) [OF _ nr this] False show ?thesis by auto
    qed
  qed
qed


lemma card_unvisited_mono:
  "finite K \<Longrightarrow> set v \<subseteq> set v' \<Longrightarrow> card (K - set v') \<le> card (K - set v)"
  by (rule card_mono) auto

lemma card_unvisited_insert:
  "finite K \<Longrightarrow> i \<in> K \<Longrightarrow> i \<notin> set v \<Longrightarrow> card (K - set v) < Suc k \<Longrightarrow>
   card (K - set (List.insert i v)) < k"
proof -
  assume fin: "finite K" and i: "i \<in> K" "i \<notin> set v" and c: "card (K - set v) < Suc k"
  have "K - set (List.insert i v) = (K - set v) - {i}" by auto
  moreover have "i \<in> K - set v" using i by simp
  ultimately have "card (K - set (List.insert i v)) = card (K - set v) - 1"
    using fin by simp
  moreover have "0 < card (K - set v)"
    using fin \<open>i \<in> K - set v\<close> by (auto simp: card_gt_0_iff)
  ultimately show ?thesis using c by linarith
qed

lemma fuel_suffices:
  "finite (dom g) \<Longrightarrow> card (dom g - set (visited st)) < k \<Longrightarrow> i \<notin> set (visited st) \<Longrightarrow>
   dfs k g ns i p st \<noteq> OutOfFuel"
  "finite (dom g) \<Longrightarrow> card (dom g - set (visited st)) < k \<Longrightarrow>
   dfs_neighbors k g ns i p nbs st \<noteq> OutOfFuel"
proof (induction k g ns i p st and k g ns i p nbs st rule: dfs_dfs_neighbors.induct)
  case (1 graph ns nodeId path st)
  then show ?case by simp
next
  case (2 k graph ns nodeId path st)
  show ?case
  proof (cases "graph nodeId")
    case None
    then show ?thesis by (simp add: Let_def)
  next
    case (Some nbs)
    then have "nodeId \<in> dom graph" by auto
    with "2.prems" have "card (dom graph - set (List.insert nodeId (visited st))) < k"
      by (intro card_unvisited_insert) auto
    with "2.IH" [OF refl refl Some \<open>finite (dom graph)\<close>] Some show ?thesis
      by (simp add: Let_def)
  qed
next
  case (3 k graph ns nodeId path st)
  then show ?case by simp
next
  case (4 k graph ns nodeId path neighbor rest st)
  show ?case
  proof (cases "neighbor \<notin> set (visited st)")
    case True
    from "4.IH"(1) [OF True "4.prems" True]
    have nf: "dfs k graph ns neighbor path st \<noteq> OutOfFuel" .
    show ?thesis
    proof (cases "dfs k graph ns neighbor path st")
      case (Returned r)
      obtain found st1 where r: "r = (found, st1)" by (cases r)
      show ?thesis
      proof (cases found)
        case True
        with Returned r \<open>neighbor \<notin> set (visited st)\<close> show ?thesis by simp
      next
        case False
        from visited_mono(1) Returned r have "set (visited st) \<subseteq> set (visited st1)" by blast
        with "4.prems" have "card (dom graph - set (visited st1)) < k"
          using card_unvisited_mono [of "dom graph" "visited st" "visited st1"] by linarith
        from "4.IH"(2) [OF \<open>neighbor \<notin> set (visited st)\<close> Returned r [symmetric] False
                          \<open>finite (dom graph)\<close> this]
        show ?thesis using Returned r False \<open>neighbor \<notin> set (visited st)\<close> by simp
      qed
    next
      case (TypeError r)
      with True show ?thesis by simp
    next
      case OutOfFuel
      with nf show ?thesis by simp
    qed
  next
    case False
    show ?thesis
    proof (cases "neighbor \<in> set (recStack st)")
      case True
      with False show ?thesis by simp
    next
      case nr: False
      from "4.IH"(3) [OF False nr "4.prems"] False nr show ?thesis by simp
    qed
  qed
qed

lemma dfs_roots_visited_mono:
  "dfs_roots k g ns rs st = Returned st' \<Longrightarrow> set (visited st) \<subseteq> set (visited st')"
proof (induction rs arbitrary: st)
  case Nil
  then show ?case by simp
next
  case (Cons r rs)
  show ?case
  proof (cases "r \<notin> set (visited st)")
    case True
    with Cons.prems obtain found st1 where
      d: "dfs k g ns r [] st = Returned (found, st1)"
      and rest: "dfs_roots k g ns rs st1 = Returned st'"
      by (auto split: outcome.splits)
    from visited_mono(1) [OF d] Cons.IH [OF rest] show ?thesis by blast
  next
    case False
    with Cons.prems Cons.IH show ?thesis by simp
  qed
qed

lemma dfs_roots_fuel_suffices:
  "finite (dom g) \<Longrightarrow> card (dom g - set (visited st)) < k \<Longrightarrow>
   dfs_roots k g ns rs st \<noteq> OutOfFuel"
proof (induction rs arbitrary: st)
  case Nil
  then show ?case by simp
next
  case (Cons r rs)
  show ?case
  proof (cases "r \<notin> set (visited st)")
    case True
    from fuel_suffices(1) [OF Cons.prems True]
    have nf: "dfs k g ns r [] st \<noteq> OutOfFuel" .
    show ?thesis
    proof (cases "dfs k g ns r [] st")
      case (Returned res)
      obtain found st1 where res: "res = (found, st1)" by (cases res)
      from visited_mono(1) Returned res have "set (visited st) \<subseteq> set (visited st1)" by blast
      with Cons.prems have "card (dom g - set (visited st1)) < k"
        using card_unvisited_mono [of "dom g" "visited st" "visited st1"] by linarith
      from Cons.IH [OF Cons.prems(1) this] Returned res True show ?thesis by simp
    next
      case (TypeError res)
      with True show ?thesis by (simp split: prod.splits)
    next
      case OutOfFuel
      with nf show ?thesis by simp
    qed
  next
    case False
    with Cons show ?thesis by simp
  qed
qed

lemma dom_foldl_nodes:
  "dom (foldl (\<lambda>g n. g(nid n \<mapsto> [])) m ns) = dom m \<union> nid ` set ns"
  by (induction ns arbitrary: m) auto

lemma dom_foldl_edges:
  "dom (foldl (\<lambda>g e. case g (sourceId e) of
                         None \<Rightarrow> g
                       | Some ts \<Rightarrow> g(sourceId e \<mapsto> ts @ [targetId e])) m es) = dom m"
proof (induction es arbitrary: m)
  case Nil
  then show ?case by simp
next
  case (Cons e es)
  show ?case by (simp add: Cons.IH split: option.splits) auto
qed

lemma dom_build_graph: "dom (build_graph ns es) = nid ` set ns"
  by (simp add: build_graph_def dom_foldl_edges dom_foldl_nodes)

lemma card_keys: "card (nid ` set ns - set v) < Suc (length ns)"
proof -
  have "card (nid ` set ns - set v) \<le> card (nid ` set ns)"
    by (rule card_mono) auto
  also have "\<dots> \<le> card (set ns)" by (rule card_image_le) simp
  also have "\<dots> \<le> length ns" by (rule card_length)
  finally show ?thesis by simp
qed

lemma checkForCycles_enough_fuel: "checkForCycles ns es msgs \<noteq> OutOfFuel"
proof -
  let ?g = "build_graph ns es"
  let ?k = "Suc (length ns)"
  have fin: "finite (dom ?g)" by (simp add: dom_build_graph)
  have c: "card (dom ?g - set (visited st)) < ?k" for st :: dfs_state
    by (simp add: dom_build_graph card_keys)
  have r: "dfs_roots ?k ?g ns rs st \<noteq> OutOfFuel" for rs st
    by (rule dfs_roots_fuel_suffices [OF fin c])
  show ?thesis
    unfolding checkForCycles_def Let_def
    using r by (auto split: outcome.splits)
qed

lemma validateFlowchart_enough_fuel: "validateFlowchart ns es \<noteq> OutOfFuel"
  using checkForCycles_enough_fuel [of ns es]
  by (auto simp: validateFlowchart_def Let_def split: outcome.splits)

text \<open>
  Claim C3, as the code has it. \<^verbatim>\<open>validateFlowchart\<close> on a graph with no nodes
  returns at once, with no diagnostic at all, whatever the edges are.
\<close>

theorem validateFlowchart_no_nodes: "validateFlowchart [] es = Returned []"
  by (simp add: validateFlowchart_def)

text \<open>
  Claim C3 as stated expects the two diagnostics for a missing start node and a missing
  end node on the empty graph. The empty graph does not get them.
\<close>

theorem validateFlowchart_empty_graph_silent:
  "validateFlowchart [] [] \<noteq>
     Returned [''No start node found. Add a start node to your flowchart.'',
               ''No end node found. Add an end node to your flowchart.'']"
  by (simp add: validateFlowchart_def)

text \<open>The two graphs that claim C9 names: one cycle message for the triangle, none for
  the fork.\<close>

lemma checkForCycles_triangle:
  "checkForCycles [labelled ''A'', labelled ''B'', labelled ''C'']
      [link ''A'' ''B'', link ''B'' ''C'', link ''C'' ''A''] []
   = Returned (True, [''Cycle detected: A'' @ arrow @ ''B'' @ arrow @ ''C'' @ arrow @ ''A''])"
  by (simp add: checkForCycles_def build_graph_def labelled_def link_def cycle_message_def)

lemma checkForCycles_fork:
  "checkForCycles [labelled ''A'', labelled ''B'', labelled ''C'']
      [link ''A'' ''B'', link ''A'' ''C''] [] = Returned (False, [])"
  by (simp add: checkForCycles_def build_graph_def labelled_def link_def cycle_message_def)

text \<open>
  Claim C9 on a graph with one cycle. In the graph with the edges A to B, B to A and C to
  A the only cycle is the one through A and B. The search from A reports it and returns
  without taking A and B off the recursion stack; the search from C then finds A on the
  stack and reports a cycle again, this time without a path.
\<close>

theorem checkForCycles_reports_cycle_twice:
  "checkForCycles [labelled ''A'', labelled ''B'', labelled ''C'']
      [link ''A'' ''B'', link ''B'' ''A'', link ''C'' ''A''] []
   = Returned (True, [''Cycle detected: A'' @ arrow @ ''B'' @ arrow @ ''A'',
                      ''Cycle detected in the flowchart.''])"
  by (simp add: checkForCycles_def build_graph_def labelled_def link_def cycle_message_def)

text \<open>
  Two cycles without a common node, through A and B and through C and D, of which only
  the second is reported: the search stops at the first cycle it meets, and by then every
  node is visited.
\<close>

lemma checkForCycles_misses_cycle:
  "checkForCycles [labelled ''S'', labelled ''A'', labelled ''B'', labelled ''C'', labelled ''D'']
      [link ''S'' ''A'', link ''A'' ''B'', link ''B'' ''C'', link ''C'' ''D'',
       link ''D'' ''C'', link ''B'' ''A''] []
   = Returned (True, [''Cycle detected: C'' @ arrow @ ''D'' @ arrow @ ''C''])"
  by (simp add: checkForCycles_def build_graph_def labelled_def link_def cycle_message_def)

end
